theory Spec2Isabelle
  imports Complex_Main "HOL-Library.Word" "HOL-Library.Multiset"
begin

section \<open>Image Uploader: the resizer, the upload orchestrator and the gallery reader\<close>

text \<open>
  The development embeds three parts of the application:
  \<^item> \<open>resizeImage\<close> of \<open>ImageUploader.jsx\<close> (the client-side resizer),
  \<^item> \<open>handleUpload\<close> of \<open>ImageUploader.jsx\<close> with \<open>analyzeStoolImage\<close>,
    \<open>describeImage\<close> and \<open>analyzeWithLLM\<close> of \<open>stoolAnalyzer.js\<close>,
  \<^item> \<open>fetchImages\<close> of the \<open>useImages\<close> hook.

  The browser and the backend are the environment. What they answer is an input of the
  model (a record of functions); what the code does to them is kept in an explicit world
  (the bucket, the table, the notification log).
\<close>

subsection \<open>Files and decoded images\<close>

type_synonym byte = "8 word"

text \<open>A Blob is its bytes; \<open>blob.size\<close> is their number.\<close>

type_synonym blob = "byte list"

text \<open>A browser \<open>File\<close>: \<open>file.name\<close>, \<open>file.type\<close>, its bytes and \<open>lastModified\<close>.\<close>

record js_file =
  name :: string
  ftype :: string
  content :: blob
  lastModified :: nat

definition size_of :: "js_file \<Rightarrow> nat" where
  "size_of f = length (content f)"

text \<open>
  The decoded \<open>Image\<close>: \<open>img.width\<close> and \<open>img.height\<close> in pixels (both are
  \<open>unsigned long\<close> attributes, so below \<open>2^32\<close>).
\<close>

record image =
  img_width :: nat
  img_height :: nat

text \<open>
  The canvas the image is drawn on. \<open>canvas.width\<close> and \<open>canvas.height\<close> are
  \<open>unsigned long\<close> attributes: a Number assigned to them loses its fraction.
\<close>

record canvas =
  cv_width :: nat
  cv_height :: nat

subsection \<open>JavaScript numbers\<close>

text \<open>
  A finite Number is an IEEE 754 binary64 value, here the rational it stands for. Every
  arithmetic operator and every decimal literal gives the Number nearest to the exact
  result, a tie going to the even significand: \<open>dbl x\<close>. \<open>binexp x\<close> is the binary
  exponent of a positive \<open>x\<close>, the \<open>e\<close> with \<open>2^e \<le> x < 2^(e+1)\<close>; the Numbers of that
  binade are the multiples of \<open>2^(e-52)\<close>. Overflow and the subnormal range (magnitudes
  from \<open>2^1024\<close> and below \<open>2^-1022\<close>) are not modelled: qualities, pixel counts and
  percentages are far from both.
\<close>

function binexp :: "rat \<Rightarrow> int" where
  "binexp x =
     (if x \<le> 0 then 0
      else if 2 \<le> x then binexp (x / 2) + 1
      else if x < 1 then binexp (x * 2) - 1
      else 0)"
  by pat_completeness auto
termination
proof (relation "measure (\<lambda>x. 2 * nat \<lceil>1 / x\<rceil> + nat \<lfloor>x\<rfloor>)")
  show "wf (measure (\<lambda>x. 2 * nat \<lceil>1 / x\<rceil> + nat \<lfloor>x\<rfloor>))"
    by simp
next
  fix x :: rat
  assume a: "\<not> x \<le> 0" "2 \<le> x"
  have c1: "\<lceil>1 / x\<rceil> = 1"
    using a by (intro ceiling_unique) (simp_all add: field_simps)
  have c2: "\<lceil>1 / (x / 2)\<rceil> = 1"
    using a by (intro ceiling_unique) (simp_all add: field_simps)
  have "x / 2 \<le> x - 1"
    using a by simp
  then have "\<lfloor>x / 2\<rfloor> \<le> \<lfloor>x - 1\<rfloor>"
    by (rule floor_mono)
  then have f: "\<lfloor>x / 2\<rfloor> < \<lfloor>x\<rfloor>"
    by simp
  have "2 \<le> \<lfloor>x\<rfloor>"
    using a by (simp add: le_floor_iff)
  with f c1 c2
  have "2 * nat \<lceil>1 / (x / 2)\<rceil> + nat \<lfloor>x / 2\<rfloor> < 2 * nat \<lceil>1 / x\<rceil> + nat \<lfloor>x\<rfloor>"
    by arith
  then show "(x / 2, x) \<in> measure (\<lambda>x. 2 * nat \<lceil>1 / x\<rceil> + nat \<lfloor>x\<rfloor>)"
    by (simp only: in_measure)
next
  fix x :: rat
  assume a: "\<not> x \<le> 0" "\<not> 2 \<le> x" "x < 1"
  have f0: "\<lfloor>x\<rfloor> = 0"
    using a by (intro floor_unique) simp_all
  have f1: "\<lfloor>x * 2\<rfloor> \<le> 1"
    using a by (simp add: floor_le_iff)
  have f2: "0 \<le> \<lfloor>x * 2\<rfloor>"
    using a by (simp add: le_floor_iff)
  have y: "1 < 1 / x"
    using a by (simp add: field_simps)
  then have c: "2 \<le> \<lceil>1 / x\<rceil>"
    by (simp add: le_ceiling_iff)
  have "1 / (x * 2) \<le> of_int \<lceil>1 / x\<rceil> / 2"
    using a le_of_int_ceiling [of "1 / x"] by (simp add: field_simps)
  also have "\<dots> \<le> of_int (\<lceil>1 / x\<rceil> - 1)"
    using c by simp
  finally have "\<lceil>1 / (x * 2)\<rceil> \<le> \<lceil>1 / x\<rceil> - 1"
    by (simp only: ceiling_le_iff)
  with c f0 f1 f2
  have "2 * nat \<lceil>1 / (x * 2)\<rceil> + nat \<lfloor>x * 2\<rfloor> < 2 * nat \<lceil>1 / x\<rceil> + nat \<lfloor>x\<rfloor>"
    by arith
  then show "(x * 2, x) \<in> measure (\<lambda>x. 2 * nat \<lceil>1 / x\<rceil> + nat \<lfloor>x\<rfloor>)"
    by (simp only: in_measure)
qed

text \<open>The integer nearest to \<open>y\<close>, the even one of the two at a tie.\<close>

definition round_even :: "rat \<Rightarrow> int" where
  "round_even y =
     (let f = \<lfloor>y\<rfloor>; r = y - of_int f in
      if r < 1 / 2 then f else if 1 / 2 < r then f + 1 else if even f then f else f + 1)"

definition dbl :: "rat \<Rightarrow> rat" where
  "dbl x =
     (if x = 0 then 0
      else (let u = 2 powi (binexp \<bar>x\<bar> - 52) in u * of_int (round_even (x / u))))"

subsection \<open>The resizer\<close>

definition MAX_WIDTH :: nat where
  "MAX_WIDTH = 1920"

definition MAX_FILE_SIZE :: nat where
  "MAX_FILE_SIZE = 2 * 1024 * 1024"

definition maxAttempts :: nat where
  "maxAttempts = 5"

text \<open>
  The quality passed to \<open>canvas.toBlob\<close> is a Number: \<open>let quality = 0.9\<close>, lowered by
  \<open>quality -= 0.1\<close> and tested by \<open>quality > 0.5\<close>. The three operations are gathered in a
  record; \<open>double_quality\<close> is what the code computes. In decimal digits its qualities
  read 0.9, 0.8, 0.7000000000000001, 0.6000000000000001, 0.5000000000000001 and
  0.40000000000000013.
\<close>

record 'q quality_ops =
  q_start :: 'q
  q_lower :: "'q \<Rightarrow> 'q"
  q_above_floor :: "'q \<Rightarrow> bool"

definition double_quality :: "rat quality_ops" where
  "double_quality =
     \<lparr>q_start = dbl (9 / 10), q_lower = (\<lambda>q. dbl (q - dbl (1 / 10))),
      q_above_floor = (\<lambda>q. q > dbl (1 / 2))\<rparr>"

text \<open>
  \<open>tryCompress\<close>: one call of \<open>canvas.toBlob\<close> per round. The first component of the result
  lists the qualities handed to the encoder, oldest first; the second is the blob the
  promise resolves with.
\<close>

function tryCompress ::
  "'q quality_ops \<Rightarrow> ('q \<Rightarrow> blob) \<Rightarrow> 'q \<Rightarrow> nat \<Rightarrow> 'q list \<times> blob" where
  "tryCompress ops toBlob quality attempts =
     (let b = toBlob quality in
      if length b > MAX_FILE_SIZE \<and> q_above_floor ops quality \<and> attempts < maxAttempts
      then (case tryCompress ops toBlob (q_lower ops quality) (attempts + 1) of
              (qs, r) \<Rightarrow> (quality # qs, r))
      else ([quality], b))"
  by pat_completeness auto
termination
  by (relation "measure (\<lambda>(ops, toBlob, quality, attempts). maxAttempts - attempts)") auto

text \<open>What the promise of \<open>resizeImage\<close> resolves with.\<close>

record resize_result =
  res_file :: js_file
  originalSize :: nat
  newSize :: nat
  wasCompressed :: bool

definition needsResize :: "js_file \<Rightarrow> image \<Rightarrow> bool" where
  "needsResize f img \<longleftrightarrow> img_width img > MAX_WIDTH \<or> size_of f > MAX_FILE_SIZE"

text \<open>
  The canvas size of the resize branch: only a width above the maximum is scaled.
  \<open>height = (height * MAX_WIDTH) / width\<close> is a product and a quotient of Numbers, and
  \<open>canvas.height = height\<close> drops the fraction.
\<close>

definition resize_canvas :: "image \<Rightarrow> canvas" where
  "resize_canvas img =
     (if img_width img > MAX_WIDTH
      then \<lparr>cv_width = MAX_WIDTH,
            cv_height =
              nat \<lfloor>dbl (dbl (of_nat (img_height img) * of_nat MAX_WIDTH)
                        / of_nat (img_width img))\<rfloor>\<rparr>
      else \<lparr>cv_width = img_width img, cv_height = img_height img\<rparr>)"

text \<open>
  \<open>resizeImage ops toBlob now f img\<close>: \<open>toBlob cv type quality\<close> is the blob the browser
  hands to the callback of \<open>canvas.toBlob\<close> for the image drawn on a canvas of size \<open>cv\<close>;
  \<open>now\<close> is the reading of \<open>Date.now()\<close> when the new file is made. The callback is
  taken to be handed a \<open>Blob\<close>, as the code takes it (it reads \<open>blob.size\<close> unguarded).
\<close>

definition resizeImage ::
  "'q quality_ops \<Rightarrow> (canvas \<Rightarrow> string \<Rightarrow> 'q \<Rightarrow> blob) \<Rightarrow> nat \<Rightarrow> js_file \<Rightarrow> image
     \<Rightarrow> resize_result" where
  "resizeImage ops toBlob now f img =
     (if needsResize f img
      then (let b = snd (tryCompress ops (toBlob (resize_canvas img) (ftype f)) (q_start ops) 0);
                newFile = \<lparr>name = name f, ftype = ftype f, content = b, lastModified = now\<rparr>
            in \<lparr>res_file = newFile, originalSize = size_of f, newSize = length b,
                wasCompressed = True\<rparr>)
      else \<lparr>res_file = f, originalSize = size_of f, newSize = size_of f,
             wasCompressed = False\<rparr>)"

text \<open>The qualities \<open>resizeImage\<close> hands to the encoder (none when nothing is resized).\<close>

definition resize_encodes ::
  "'q quality_ops \<Rightarrow> (canvas \<Rightarrow> string \<Rightarrow> 'q \<Rightarrow> blob) \<Rightarrow> js_file \<Rightarrow> image \<Rightarrow> 'q list" where
  "resize_encodes ops toBlob f img =
     (if needsResize f img
      then fst (tryCompress ops (toBlob (resize_canvas img) (ftype f)) (q_start ops) 0)
      else [])"

subsection \<open>JavaScript values\<close>

text \<open>
  What \<open>response.json()\<close> and \<open>JSON.parse\<close> return, and \<open>undefined\<close> for a property that
  is not there. An object is the list of its own properties; the first binding of a name
  counts.
\<close>

datatype json =
  JUndefined
  | JNull
  | JBool bool
  | JNum rat
  | JStr string
  | JArr "json list"
  | JObj "(string \<times> json) list"

text \<open>Truthiness, as \<open>||\<close>, \<open>&&\<close>, \<open>!\<close> and \<open>if\<close> read a value.\<close>

fun truthy :: "json \<Rightarrow> bool" where
  "truthy JUndefined = False"
| "truthy JNull = False"
| "truthy (JBool b) = b"
| "truthy (JNum n) = (n \<noteq> 0)"
| "truthy (JStr s) = (s \<noteq> [])"
| "truthy (JArr xs) = True"
| "truthy (JObj kvs) = True"

text \<open>\<open>a || b\<close> and \<open>a ?? b\<close>.\<close>

definition js_or :: "json \<Rightarrow> json \<Rightarrow> json" where
  "js_or a b = (if truthy a then a else b)"

definition nullish :: "json \<Rightarrow> json \<Rightarrow> json" where
  "nullish a b = (if a = JUndefined \<or> a = JNull then b else a)"

text \<open>
  \<open>v.p\<close> for one of the property names the code reads (\<open>isRelevant\<close>, \<open>generated_text\<close>,
  ...): a \<open>TypeError\<close> on \<open>null\<close> and \<open>undefined\<close>, the binding on an object, \<open>undefined\<close> on
  every other value (none of those names is a property of a string, a number, a boolean
  or an array).
\<close>

fun get_prop :: "json \<Rightarrow> string \<Rightarrow> string + json" where
  "get_prop JUndefined p = Inl (''TypeError: Cannot read properties of undefined'')"
| "get_prop JNull p = Inl (''TypeError: Cannot read properties of null'')"
| "get_prop (JObj kvs) p = Inr (case map_of kvs p of None \<Rightarrow> JUndefined | Some v \<Rightarrow> v)"
| "get_prop v p = Inr JUndefined"

text \<open>\<open>v?.p\<close>: \<open>undefined\<close> instead of the \<open>TypeError\<close>.\<close>

definition opt_prop :: "json \<Rightarrow> string \<Rightarrow> json" where
  "opt_prop v p = (case get_prop v p of Inl e \<Rightarrow> JUndefined | Inr x \<Rightarrow> x)"

text \<open>\<open>v[0]\<close>: the first element of an array, the first character of a string.\<close>

fun elem0 :: "json \<Rightarrow> string + json" where
  "elem0 (JArr []) = Inr JUndefined"
| "elem0 (JArr (x # xs)) = Inr x"
| "elem0 (JStr []) = Inr JUndefined"
| "elem0 (JStr (c # cs)) = Inr (JStr [c])"
| "elem0 v = get_prop v ''0''"

subsection \<open>The inference services (\<open>stoolAnalyzer.js\<close>)\<close>

text \<open>
  What \<open>fetch\<close> gives for a request to an inference endpoint: the promise rejects, the
  status is not \<open>ok\<close> (with the body text), or the status is \<open>ok\<close> and the body is JSON or
  is not.
\<close>

datatype http_response =
  Rejected string
  | Not_ok string
  | Ok_json json
  | Ok_not_json

text \<open>
  The match of \<open>/\{[\s\S]*\}/\<close>: from the first opening brace to the last closing brace
  behind it; no match when there is none.
\<close>

definition json_match :: "string \<Rightarrow> string option" where
  "json_match s =
     (let t = dropWhile (\<lambda>c. c \<noteq> CHR ''{'') s in
      if t = [] then None
      else (let r = rev (dropWhile (\<lambda>c. c \<noteq> CHR ''}'') (rev (tl t))) in
            if r = [] then None else Some (CHR ''{'' # r)))"

text \<open>
  For comparison, the first \<open>{...}\<close> span of a text as the specification words it: from
  the first opening brace to the first closing brace behind it.
\<close>

definition first_brace_span :: "string \<Rightarrow> string option" where
  "first_brace_span s =
     (let t = dropWhile (\<lambda>c. c \<noteq> CHR ''{'') s in
      if t = [] then None
      else (let body = takeWhile (\<lambda>c. c \<noteq> CHR ''}'') (tl t) in
            if length body = length (tl t) then None
            else Some (CHR ''{'' # body @ [CHR ''}''])))"

text \<open>The structured error of \<open>analyzeWithLLM\<close>.\<close>

definition null_indicators :: json where
  "null_indicators =
     JObj [(''dehydration'', JNull), (''bloodPresence'', JNull), (''unusualColor'', JNull),
           (''consistencyIssues'', JNull)]"

definition parse_fallback :: json where
  "parse_fallback =
     JObj [(''isRelevant'', JBool False), (''bristolScore'', JNull),
           (''sizeEstimation'', JNull), (''healthIndicators'', null_indicators),
           (''warnings'', JArr [JStr ''Unable to parse analysis results'']),
           (''notes'', JStr ''Analysis failed - could not interpret image description'')]"

text \<open>
  The extraction at the end of \<open>analyzeWithLLM\<close>, inside its \<open>try\<close>: \<open>generatedText.match\<close> is
  a \<open>TypeError\<close> on a value that is not a string, \<open>JSON.parse\<close> (the parameter \<open>parse\<close>,
  \<open>None\<close> for a \<open>SyntaxError\<close>) may throw, and no match throws; the \<open>catch\<close> returns the
  structured error for all three.
\<close>

definition extract_json :: "(string \<Rightarrow> json option) \<Rightarrow> json \<Rightarrow> json" where
  "extract_json parse generatedText =
     (case generatedText of
        JStr s \<Rightarrow>
          (case json_match s of
             None \<Rightarrow> parse_fallback
           | Some matched \<Rightarrow> (case parse matched of None \<Rightarrow> parse_fallback | Some v \<Rightarrow> v))
      | _ \<Rightarrow> parse_fallback)"

text \<open>\<open>result[0]?.generated_text || ''\<close>; \<open>Inl\<close> is the error thrown.\<close>

definition generated_text :: "json \<Rightarrow> string + json" where
  "generated_text result =
     (case elem0 result of
        Inl e \<Rightarrow> Inl e
      | Inr x \<Rightarrow> Inr (js_or (opt_prop x ''generated_text'') (JStr [])))"

text \<open>
  The services as the code meets them. \<open>vision f\<close> answers the request with the file as
  body; \<open>llm d\<close> answers the request whose prompt embeds the description \<open>d\<close>;
  \<open>json_parse\<close> is \<open>JSON.parse\<close>.
\<close>

record services =
  vision :: "js_file \<Rightarrow> http_response"
  llm :: "json \<Rightarrow> http_response"
  json_parse :: "string \<Rightarrow> json option"

definition describeImage :: "services \<Rightarrow> js_file \<Rightarrow> string + json" where
  "describeImage sv imageFile =
     (case vision sv imageFile of
        Rejected e \<Rightarrow> Inl e
      | Not_ok body \<Rightarrow> Inl (''Vision API error: '' @ body)
      | Ok_not_json \<Rightarrow> Inl ''SyntaxError: Unexpected token''
      | Ok_json result \<Rightarrow> generated_text result)"

definition analyzeWithLLM :: "services \<Rightarrow> json \<Rightarrow> string + json" where
  "analyzeWithLLM sv description =
     (case llm sv description of
        Rejected e \<Rightarrow> Inl e
      | Not_ok body \<Rightarrow> Inl (''LLM API error: '' @ body)
      | Ok_not_json \<Rightarrow> Inl ''SyntaxError: Unexpected token''
      | Ok_json result \<Rightarrow>
          (case generated_text result of
             Inl e \<Rightarrow> Inl e
           | Inr generatedText \<Rightarrow> Inr (extract_json (json_parse sv) generatedText)))"

text \<open>
  The object \<open>analyzeStoolImage\<close> returns, with the fields its caller reads and the \<open>error\<close>
  text that tells the failures apart.
\<close>

record analysis_result =
  success :: bool
  error_text :: "string option"
  isRelevant :: json
  bristolScore :: json
  sizeEstimation :: json
  healthIndicators :: json
  ar_warnings :: json
  ar_notes :: json

definition failed_result :: "string \<Rightarrow> string \<Rightarrow> analysis_result" where
  "failed_result err warning =
     \<lparr>success = False, error_text = Some err, isRelevant = JBool False, bristolScore = JNull,
      sizeEstimation = JNull, healthIndicators = null_indicators,
      ar_warnings = JArr [JStr warning], ar_notes = JNull\<rparr>"

text \<open>
  Step 3 of \<open>analyzeStoolImage\<close>. It reads properties of \<open>analysis\<close>, which throws when
  \<open>analysis\<close> is \<open>null\<close>; the catch-all handler answers that.
\<close>

definition validated_result :: "json \<Rightarrow> string + analysis_result" where
  "validated_result analysis =
     (case get_prop analysis ''isRelevant'' of
        Inl e \<Rightarrow> Inl e
      | Inr rel \<Rightarrow>
          (let hi = opt_prop analysis ''healthIndicators'';
               w = opt_prop analysis ''warnings''
           in Inr \<lparr>success = True, error_text = None,
                   isRelevant = js_or rel (JBool False),
                   bristolScore = opt_prop analysis ''bristolScore'',
                   sizeEstimation = opt_prop analysis ''sizeEstimation'',
                   healthIndicators =
                     JObj [(''dehydration'', nullish (opt_prop hi ''dehydration'') JNull),
                           (''bloodPresence'', nullish (opt_prop hi ''bloodPresence'') JNull),
                           (''unusualColor'', nullish (opt_prop hi ''unusualColor'') JNull),
                           (''consistencyIssues'',
                              nullish (opt_prop hi ''consistencyIssues'') JNull)],
                   ar_warnings = (case w of JArr xs \<Rightarrow> JArr xs | _ \<Rightarrow> JArr []),
                   ar_notes = js_or (opt_prop analysis ''notes'') JNull\<rparr>))"

definition analyzeStoolImage :: "services \<Rightarrow> js_file \<Rightarrow> analysis_result" where
  "analyzeStoolImage sv imageFile =
     (case describeImage sv imageFile of
        Inl visionError \<Rightarrow>
          failed_result ''Failed to analyze image'' ''Image analysis failed - please try again''
      | Inr description \<Rightarrow>
          (case analyzeWithLLM sv description of
             Inl llmError \<Rightarrow>
               failed_result ''Failed to process analysis''
                 ''Analysis processing failed - please try again''
           | Inr analysis \<Rightarrow>
               (case validated_result analysis of
                  Inl e \<Rightarrow>
                    failed_result ''Unexpected error during analysis''
                      ''An unexpected error occurred - please try again''
                | Inr r \<Rightarrow> r)))"

subsection \<open>Numbers in template strings\<close>

definition digit :: "nat \<Rightarrow> char" where
  "digit d = ''0123456789'' ! d"

fun string_of_nat :: "nat \<Rightarrow> string" where
  "string_of_nat n =
     (if n < 10 then [digit n] else string_of_nat (n div 10) @ [digit (n mod 10)])"

definition string_of_int :: "int \<Rightarrow> string" where
  "string_of_int i =
     (if i < 0 then CHR ''-'' # string_of_nat (nat (- i)) else string_of_nat (nat i))"

subsection \<open>The backend: bucket \<open>profile-images\<close> and table \<open>user_images\<close>\<close>

record user =
  uid :: string

text \<open>
  A row of \<open>user_images\<close>. The classification columns are \<open>null\<close> until an update sets
  them.
\<close>

record image_row =
  row_id :: nat
  user_id :: string
  storage_path :: string
  image_url :: string
  display_order :: "int option"
  created_at :: nat
  bristol_score :: json
  size_score :: json
  health_indicators :: json
  analysis_notes :: json
  warnings :: json
  is_analyzed :: bool

record insert_payload =
  ins_user_id :: string
  ins_storage_path :: string
  ins_image_url :: string

type_synonym patch = "(string \<times> json) list"

text \<open>
  What the environment answers. \<open>clock k\<close> is the \<open>k\<close>-th reading of \<open>Date.now()\<close>;
  \<open>upload_error\<close>, \<open>remove_error\<close>, \<open>insert_error\<close> and \<open>update_error\<close> give the
  \<open>error.message\<close> of a call the backend refuses (\<open>None\<close> when it accepts),
  \<open>select_error\<close> that of a query; \<open>fetch_image url\<close>
  is the blob and its type behind a URL, \<open>None\<close> when \<open>fetch\<close> or \<open>response.blob()\<close> rejects;
  \<open>db_time\<close> stamps a new row.
\<close>

record backend =
  clock :: "nat \<Rightarrow> nat"
  upload_error :: "string \<Rightarrow> js_file \<Rightarrow> string option"
  remove_error :: "string \<Rightarrow> string option"
  publicUrl :: "string \<Rightarrow> string"
  insert_error :: "image_row list \<Rightarrow> insert_payload \<Rightarrow> string option"
  db_time :: "nat \<Rightarrow> nat"
  update_error :: "nat \<Rightarrow> patch \<Rightarrow> string option"
  fetch_image :: "string \<Rightarrow> (blob \<times> string) option"
  select_error :: "string \<Rightarrow> string option"
  inference :: services

text \<open>Every call that leaves the component, and every notification, in the order made.\<close>

datatype event =
  Toast_error string
  | Toast_success string
  | Toast_loading string
  | Console_error string
  | Storage_upload string
  | Storage_remove string
  | Db_insert string
  | Db_update nat patch
  | Fetch string
  | Refetch

record world =
  objects :: "string \<rightharpoonup> js_file"
  user_images :: "image_row list"
  ticks :: nat
  events :: "event list"

definition emit :: "event \<Rightarrow> world \<Rightarrow> world" where
  "emit e w = w\<lparr>events := events w @ [e]\<rparr>"

text \<open>
  \<open>storage.upload(path, file, {upsert: false})\<close>: the bucket refuses a path it already
  holds.
\<close>

definition storage_upload :: "backend \<Rightarrow> string \<Rightarrow> js_file \<Rightarrow> world \<Rightarrow> string option \<times> world" where
  "storage_upload be path f w =
     (let w1 = emit (Storage_upload path) w in
      case upload_error be path f of
        Some msg \<Rightarrow> (Some msg, w1)
      | None \<Rightarrow>
          (if objects w1 path \<noteq> None then (Some ''The resource already exists'', w1)
           else (None, w1\<lparr>objects := (objects w1)(path \<mapsto> f)\<rparr>)))"

text \<open>
  \<open>storage.remove([path])\<close>: the bucket deletes the object unless it refuses the call, and
  answers \<open>{ data, error }\<close>. The upload loop does not look at the answer, so the world
  is all that is returned.
\<close>

definition storage_remove :: "backend \<Rightarrow> string \<Rightarrow> world \<Rightarrow> world" where
  "storage_remove be path w =
     (let w1 = emit (Storage_remove path) w in
      case remove_error be path of
        Some msg \<Rightarrow> w1
      | None \<Rightarrow> w1\<lparr>objects := (objects w1)(path := None)\<rparr>)"

definition fresh_id :: "image_row list \<Rightarrow> nat" where
  "fresh_id rs = Suc (foldr max (map row_id rs) 0)"

text \<open>\<open>insert(...).select().single()\<close>: the new row as the table completes it.\<close>

definition new_row :: "backend \<Rightarrow> image_row list \<Rightarrow> insert_payload \<Rightarrow> image_row" where
  "new_row be rs p =
     \<lparr>row_id = fresh_id rs, user_id = ins_user_id p, storage_path = ins_storage_path p,
      image_url = ins_image_url p, display_order = None, created_at = db_time be (fresh_id rs),
      bristol_score = JNull, size_score = JNull, health_indicators = JNull,
      analysis_notes = JNull, warnings = JNull, is_analyzed = False\<rparr>"

definition db_insert :: "backend \<Rightarrow> insert_payload \<Rightarrow> world \<Rightarrow> (string + image_row) \<times> world" where
  "db_insert be p w =
     (let w1 = emit (Db_insert (ins_storage_path p)) w in
      case insert_error be (user_images w1) p of
        Some msg \<Rightarrow> (Inl msg, w1)
      | None \<Rightarrow>
          (let r = new_row be (user_images w1) p
           in (Inr r, w1\<lparr>user_images := user_images w1 @ [r]\<rparr>)))"

text \<open>
  One property of the object handed to \<open>update\<close>. A property whose value is \<open>undefined\<close> is
  not in the request body, so its column stays.
\<close>

definition set_column :: "image_row \<Rightarrow> string \<times> json \<Rightarrow> image_row" where
  "set_column r kv =
     (let k = fst kv; v = snd kv in
      if v = JUndefined then r
      else if k = ''bristol_score'' then r\<lparr>bristol_score := v\<rparr>
      else if k = ''size_score'' then r\<lparr>size_score := v\<rparr>
      else if k = ''health_indicators'' then r\<lparr>health_indicators := v\<rparr>
      else if k = ''analysis_notes'' then r\<lparr>analysis_notes := v\<rparr>
      else if k = ''warnings'' then r\<lparr>warnings := v\<rparr>
      else if k = ''is_analyzed'' then r\<lparr>is_analyzed := truthy v\<rparr>
      else r)"

definition apply_patch :: "patch \<Rightarrow> image_row \<Rightarrow> image_row" where
  "apply_patch p r = foldl set_column r p"

text \<open>\<open>update(patch).eq('id', id)\<close>.\<close>

definition db_update :: "backend \<Rightarrow> nat \<Rightarrow> patch \<Rightarrow> world \<Rightarrow> string option \<times> world" where
  "db_update be i p w =
     (let w1 = emit (Db_update i p) w in
      case update_error be i p of
        Some msg \<Rightarrow> (Some msg, w1)
      | None \<Rightarrow>
          (None, w1\<lparr>user_images :=
                     map (\<lambda>r. if row_id r = i then apply_patch p r else r) (user_images w1)\<rparr>))"

subsection \<open>The component state\<close>

record preview =
  pv_name :: string
  pv_url :: string

record size_info =
  si_name :: string
  si_originalSize :: nat
  si_newSize :: nat
  si_wasCompressed :: bool

record ui_state =
  selectedFiles :: "js_file list"
  previews :: "preview list"
  fileSizeInfo :: "size_info list"
  uploading :: bool
  uploadProgress :: nat
  analyzing :: bool

subsection \<open>\<open>handleUpload\<close>: the upload loop\<close>

text \<open>\<open>`${user.id}/${timestamp}_${file.name}`\<close>.\<close>

definition storagePath :: "user \<Rightarrow> nat \<Rightarrow> js_file \<Rightarrow> string" where
  "storagePath u timestamp f = uid u @ ''/'' @ (string_of_nat timestamp @ ''_'' @ name f)"

text \<open>
  \<open>Math.round((uploadedCount / totalFiles) * 100)\<close>: the quotient and the product are
  Numbers; \<open>Math.round\<close> gives the nearest integer, the upper one at a tie.
\<close>

definition progress :: "nat \<Rightarrow> nat \<Rightarrow> nat" where
  "progress uploadedCount totalFiles =
     nat \<lfloor>dbl (dbl (of_nat uploadedCount / of_nat totalFiles) * 100) + 1 / 2\<rfloor>"

text \<open>
  The loop \<open>for (const file of selectedFiles)\<close>. The state carried round the loop is the
  world, \<open>uploadedImages\<close>, \<open>uploadedCount\<close> and the component state; \<open>Inl\<close> is the message
  of the \<open>Error\<close> thrown out of the loop.
\<close>

fun upload_files ::
  "backend \<Rightarrow> user \<Rightarrow> nat \<Rightarrow> js_file list \<Rightarrow> world \<Rightarrow> image_row list \<Rightarrow> nat \<Rightarrow> ui_state
     \<Rightarrow> (string + image_row list \<times> nat) \<times> world \<times> ui_state" where
  "upload_files be u totalFiles [] w uploadedImages uploadedCount st =
     (Inr (uploadedImages, uploadedCount), w, st)"
| "upload_files be u totalFiles (f # fs) w uploadedImages uploadedCount st =
     (let timestamp = clock be (ticks w);
          w0 = w\<lparr>ticks := Suc (ticks w)\<rparr>;
          path = storagePath u timestamp f
      in case storage_upload be path f w0 of
           (Some storageError, w1) \<Rightarrow>
             (Inl (''Failed to upload '' @ name f @ '': '' @ storageError), w1, st)
         | (None, w1) \<Rightarrow>
             (case db_insert be
                     \<lparr>ins_user_id = uid u, ins_storage_path = path,
                      ins_image_url = publicUrl be path\<rparr> w1 of
                (Inl dbError, w2) \<Rightarrow>
                  (Inl (''Failed to save image record: '' @ dbError), storage_remove be path w2, st)
              | (Inr imageData, w2) \<Rightarrow>
                  upload_files be u totalFiles fs w2 (uploadedImages @ [imageData])
                    (uploadedCount + 1)
                    (st\<lparr>uploadProgress := progress (uploadedCount + 1) totalFiles\<rparr>)))"

subsection \<open>\<open>handleUpload\<close>: the analysis loop\<close>

definition analysis_patch :: "analysis_result \<Rightarrow> patch" where
  "analysis_patch a =
     [(''bristol_score'', bristolScore a), (''size_score'', sizeEstimation a),
      (''health_indicators'', healthIndicators a), (''analysis_notes'', ar_notes a),
      (''warnings'', ar_warnings a), (''is_analyzed'', JBool True)]"

definition analyzed_patch :: patch where
  "analyzed_patch = [(''is_analyzed'', JBool True)]"

text \<open>\<open>new File([blob], 'sample.jpg', { type: blob.type })\<close>, made at the current time.\<close>

definition sample_of :: "backend \<Rightarrow> world \<Rightarrow> blob \<times> string \<Rightarrow> js_file" where
  "sample_of be w b =
     \<lparr>name = ''sample.jpg'', ftype = snd b, content = fst b, lastModified = clock be (ticks w)\<rparr>"

text \<open>
  The body of \<open>for (const imageData of uploadedImages)\<close>. The first component is \<open>True\<close>
  when an exception leaves the body, which is when the image cannot be fetched: every
  other failure comes back from \<open>analyzeStoolImage\<close> as a result.
\<close>

definition analyze_one :: "backend \<Rightarrow> image_row \<Rightarrow> world \<Rightarrow> bool \<times> world" where
  "analyze_one be imageData w =
     (let w1 = emit (Fetch (image_url imageData)) w in
      case fetch_image be (image_url imageData) of
        None \<Rightarrow> (True, w1)
      | Some b \<Rightarrow>
          (let file = sample_of be w b;
               analysisResult = analyzeStoolImage (inference be) file
           in if success analysisResult \<and> truthy (isRelevant analysisResult)
              then (case db_update be (row_id imageData) (analysis_patch analysisResult) w1 of
                      (Some updateError, w2) \<Rightarrow>
                        (False,
                         emit (Toast_error
                                 (''Analysis saved but failed to update record for image '' @
                                  string_of_nat (row_id imageData)))
                           (emit (Console_error ''Failed to update analysis:'') w2))
                    | (None, w2) \<Rightarrow> (False, emit (Toast_success ''Analysis complete!'') w2))
              else if \<not> truthy (isRelevant analysisResult)
              then (False,
                    emit (Toast_error ''Image does not appear to be a valid sample'')
                      (snd (db_update be (row_id imageData) analyzed_patch w1)))
              else (False,
                    emit (Toast_error ''Analysis failed - please try again'')
                      (snd (db_update be (row_id imageData) analyzed_patch w1)))))"

text \<open>
  The object the body hands to \<open>update\<close> for an analysis result, whichever of the three
  branches is taken.
\<close>

definition sent_patch :: "analysis_result \<Rightarrow> patch" where
  "sent_patch a = (if success a \<and> truthy (isRelevant a) then analysis_patch a else analyzed_patch)"

text \<open>What the notifications of the body are, for a result and what \<open>update\<close> answered.\<close>

definition body_notes :: "nat \<Rightarrow> analysis_result \<Rightarrow> string option \<Rightarrow> event list" where
  "body_notes i a updateError =
     (if success a \<and> truthy (isRelevant a)
      then (case updateError of
              Some e \<Rightarrow>
                [Console_error ''Failed to update analysis:'',
                 Toast_error (''Analysis saved but failed to update record for image '' @
                              string_of_nat i)]
            | None \<Rightarrow> [Toast_success ''Analysis complete!''])
      else if \<not> truthy (isRelevant a)
      then [Toast_error ''Image does not appear to be a valid sample'']
      else [Toast_error ''Analysis failed - please try again''])"

text \<open>
  \<open>row_kept r r'\<close>: \<open>r'\<close> is the row \<open>r\<close> with, at most, classification columns written: the
  identity, the owner, the storage key, the URL and the ordering columns are the same, and
  \<open>is_analyzed\<close> has not gone back to false.
\<close>

definition row_kept :: "image_row \<Rightarrow> image_row \<Rightarrow> bool" where
  "row_kept r r' \<longleftrightarrow>
     row_id r' = row_id r \<and> user_id r' = user_id r \<and> storage_path r' = storage_path r
     \<and> image_url r' = image_url r \<and> display_order r' = display_order r
     \<and> created_at r' = created_at r \<and> (is_analyzed r \<longrightarrow> is_analyzed r')"

text \<open>The loop inside the inner \<open>try\<close>: it ends at the first exception.\<close>

fun analyze_images :: "backend \<Rightarrow> image_row list \<Rightarrow> world \<Rightarrow> bool \<times> world" where
  "analyze_images be [] w = (False, w)"
| "analyze_images be (imageData # rest) w =
     (case analyze_one be imageData w of
        (True, w') \<Rightarrow> (True, w')
      | (False, w') \<Rightarrow> analyze_images be rest w')"

subsection \<open>\<open>handleUpload\<close>\<close>

text \<open>
  \<open>handleUpload be usr currentImageCount onRefetch (st, w)\<close>: \<open>usr\<close> is the user of the
  session (\<open>None\<close> for \<open>null\<close>), \<open>currentImageCount\<close> and \<open>onRefetch\<close> (is it given?) are the
  props of the component.
\<close>

definition handleUpload ::
  "backend \<Rightarrow> user option \<Rightarrow> int \<Rightarrow> bool \<Rightarrow> ui_state \<times> world \<Rightarrow> ui_state \<times> world" where
  "handleUpload be usr currentImageCount onRefetch sw =
     (let st = fst sw; w = snd sw in
      if selectedFiles st = [] then (st, w)
      else if currentImageCount \<ge> 60
      then (st, emit (Toast_error ''You have reached the maximum limit of 60 images'') w)
      else if currentImageCount + int (length (selectedFiles st)) > 60
      then (st, emit (Toast_error (''You can only upload '' @
                        string_of_int (60 - currentImageCount) @ '' more image(s)'')) w)
      else (case usr of
              None \<Rightarrow> (st, emit (Toast_error ''You must be logged in to upload images'') w)
            | Some u \<Rightarrow>
                (case upload_files be u (length (selectedFiles st)) (selectedFiles st) w [] 0
                        (st\<lparr>uploading := True, uploadProgress := 0\<rparr>) of
                   (Inl message, w1, st1) \<Rightarrow>
                     (st1\<lparr>uploading := False\<rparr>,
                      emit (Toast_error
                              (if message = [] then ''Failed to upload images'' else message))
                        (emit (Console_error ''Upload failed:'') w1))
                 | (Inr (uploadedImages, uploadedCount), w1, st1) \<Rightarrow>
                     (let w2 = emit (Toast_loading ''Analyzing your sample...'')
                                 (emit (Toast_success
                                          (''Successfully uploaded '' @
                                           string_of_nat uploadedCount @
                                           '' image(s)'')) w1);
                          st2 = st1\<lparr>uploadProgress := 0, uploading := False,
                                    analyzing := True\<rparr>;
                          w3 = (case analyze_images be uploadedImages w2 of
                                  (True, w') \<Rightarrow>
                                    emit (Toast_error
                                            ''Failed to analyze images - you can try again later'')
                                      (emit (Console_error ''Analysis error:'') w')
                                | (False, w') \<Rightarrow> w');
                          st3 = st2\<lparr>analyzing := False, selectedFiles := [], previews := [],
                                    fileSizeInfo := []\<rparr>
                      in (st3, if onRefetch then emit Refetch w3 else w3)))))"

subsection \<open>\<open>useImages\<close>: the gallery reader\<close>

text \<open>
  The query of \<open>fetchImages\<close> is answered by the table:
  \<open>.eq('user_id', user.id).order('display_order', {ascending: true})
   .order('created_at', {ascending: false})\<close>.
  \<open>row_before r s\<close>: \<open>r\<close> may stand before \<open>s\<close> in that order. An ascending column puts
  its \<open>null\<close>s last.
\<close>

definition row_before :: "image_row \<Rightarrow> image_row \<Rightarrow> bool" where
  "row_before r s =
     (case (display_order r, display_order s) of
        (Some a, Some b) \<Rightarrow> a < b \<or> (a = b \<and> created_at s \<le> created_at r)
      | (Some a, None) \<Rightarrow> True
      | (None, Some b) \<Rightarrow> False
      | (None, None) \<Rightarrow> created_at s \<le> created_at r)"

fun place_row :: "image_row \<Rightarrow> image_row list \<Rightarrow> image_row list" where
  "place_row r [] = [r]"
| "place_row r (s # ss) = (if row_before r s then r # s # ss else s # place_row r ss)"

fun order_rows :: "image_row list \<Rightarrow> image_row list" where
  "order_rows [] = []"
| "order_rows (r # rs) = place_row r (order_rows rs)"

definition select_user_images :: "image_row list \<Rightarrow> string \<Rightarrow> image_row list" where
  "select_user_images tbl u = order_rows (filter (\<lambda>r. user_id r = u) tbl)"

record images_state =
  images :: "image_row list"
  loading :: bool
  load_error :: "string option"

definition fetchImages :: "backend \<Rightarrow> user option \<Rightarrow> world \<Rightarrow> images_state \<Rightarrow> images_state" where
  "fetchImages be usr w st =
     (case usr of
        None \<Rightarrow> st\<lparr>images := [], loading := False\<rparr>
      | Some u \<Rightarrow>
          (case select_error be (uid u) of
             Some fetchError \<Rightarrow> st\<lparr>load_error := Some fetchError, loading := False\<rparr>
           | None \<Rightarrow>
               st\<lparr>images := select_user_images (user_images w) (uid u), load_error := None,
                  loading := False\<rparr>))"

text \<open>The count the dashboard shows and hands to the uploader: \<open>images.length\<close>.\<close>

definition currentImageCount :: "images_state \<Rightarrow> int" where
  "currentImageCount st = int (length (images st))"

subsection \<open>Events of interest\<close>

text \<open>The paths handed to \<open>storage.upload\<close>, in the order of the calls.\<close>

fun storage_uploads :: "event list \<Rightarrow> string list" where
  "storage_uploads [] = []"
| "storage_uploads (Storage_upload p # es) = p # storage_uploads es"
| "storage_uploads (e # es) = storage_uploads es"

subsection \<open>A concrete backend\<close>

text \<open>
  A user, files, and a backend that accepts every call and whose clock advances by one
  millisecond per reading; variants of it refuse an insert or a removal, or stop the clock. They are
  the inputs at which the theorems below are instantiated.
\<close>

definition demo_user :: user where
  "demo_user = \<lparr>uid = ''u1''\<rparr>"

definition demo_file :: "string \<Rightarrow> js_file" where
  "demo_file nm = \<lparr>name = nm, ftype = ''image/png'', content = [1, 2, 3], lastModified = 0\<rparr>"

definition demo_state :: "js_file list \<Rightarrow> ui_state" where
  "demo_state fs =
     \<lparr>selectedFiles = fs, previews = [], fileSizeInfo = [], uploading = False,
      uploadProgress = 0, analyzing = False\<rparr>"

definition empty_world :: world where
  "empty_world = \<lparr>objects = Map.empty, user_images = [], ticks = 0, events = []\<rparr>"

definition demo_services :: services where
  "demo_services =
     \<lparr>vision = (\<lambda>f. Ok_json (JArr [JObj [(''generated_text'', JStr ''a photo'')]])),
      llm = (\<lambda>d. Ok_json (JArr [JObj [(''generated_text'', JStr ''Sure: {} done'')]])),
      json_parse = (\<lambda>s. if s = ''{}'' then Some (JObj []) else None)\<rparr>"

definition demo_backend :: backend where
  "demo_backend =
     \<lparr>clock = (\<lambda>k. 1700000000000 + k), upload_error = (\<lambda>p f. None),
      remove_error = (\<lambda>p. None), publicUrl = (\<lambda>p. ''https://cdn/'' @ p), insert_error = (\<lambda>rs p. None),
      db_time = (\<lambda>i. i), update_error = (\<lambda>i p. None),
      fetch_image = (\<lambda>url. Some ([], ''image/png'')), select_error = (\<lambda>u. None),
      inference = demo_services\<rparr>"

definition strict_backend :: backend where
  "strict_backend = demo_backend\<lparr>insert_error := (\<lambda>rs p. if rs = [] then None else Some ''row limit'')\<rparr>"


definition frozen_backend :: backend where
  "frozen_backend = demo_backend\<lparr>clock := (\<lambda>k. 1700000000000)\<rparr>"

definition first_row :: image_row where
  "first_row =
     \<lparr>row_id = 1, user_id = ''u1'', storage_path = ''u1/1700000000000_a.png'',
      image_url = ''https://cdn/u1/1700000000000_a.png'', display_order = None, created_at = 1,
      bristol_score = JNull, size_score = JNull, health_indicators = JNull,
      analysis_notes = JNull, warnings = JNull, is_analyzed = False\<rparr>"

definition world_after_first :: world where
  "world_after_first =
     \<lparr>objects = [''u1/1700000000000_a.png'' \<mapsto> demo_file ''a.png''],
      user_images = [first_row], ticks = 1,
      events = [Storage_upload ''u1/1700000000000_a.png'', Db_insert ''u1/1700000000000_a.png'']\<rparr>"

text \<open>
  A classification service that answers with a JSON object inside free text, and
  \<open>JSON.parse\<close> on that object. \<open>dq\<close> is the double quote.
\<close>

definition dq :: char where
  "dq = CHR 0x22"

definition relevant_json :: string where
  "relevant_json =
     ''{'' @ [dq] @ ''isRelevant'' @ [dq] @ '': true, '' @ [dq] @ ''bristolScore'' @ [dq] @
     '': 4}''"

definition relevant_reply :: string where
  "relevant_reply = ''Here you go: '' @ relevant_json @ '' .''"

definition relevant_services :: services where
  "relevant_services =
     \<lparr>vision = (\<lambda>f. if content f = [1] then Not_ok ''Service Unavailable''
                     else Ok_json (JArr [JObj [(''generated_text'', JStr ''a photo'')]])),
      llm = (\<lambda>d. Ok_json (JArr [JObj [(''generated_text'', JStr relevant_reply)]])),
      json_parse = (\<lambda>s. if s = relevant_json
                          then Some (JObj [(''isRelevant'', JBool True), (''bristolScore'', JNum 4)])
                          else None)\<rparr>"

text \<open>The bytes behind the URL of \<open>a.png\<close> are \<open>[1]\<close>, those behind every other URL \<open>[2]\<close>.\<close>

definition relevant_backend :: backend where
  "relevant_backend =
     demo_backend\<lparr>inference := relevant_services,
                   fetch_image := (\<lambda>url. if url = ''https://cdn/u1/1700000000000_a.png''
                                          then Some ([1], ''image/png'')
                                          else Some ([2], ''image/png''))\<rparr>"

text \<open>The same, but the table refuses every update.\<close>

definition refusing_backend :: backend where
  "refusing_backend =
     relevant_backend\<lparr>update_error := (\<lambda>i p. Some ''permission denied''),
                       fetch_image := (\<lambda>url. Some ([2], ''image/png''))\<rparr>"

text \<open>The same as \<open>relevant_backend\<close>, but the image of \<open>a.png\<close> cannot be fetched.\<close>

definition unreachable_backend :: backend where
  "unreachable_backend =
     relevant_backend\<lparr>fetch_image := (\<lambda>url. if url = ''https://cdn/u1/1700000000000_a.png''
                                              then None else Some ([2], ''image/png''))\<rparr>"

text \<open>A classification service whose answer holds braces but no JSON.\<close>

definition garbled_services :: services where
  "garbled_services =
     demo_services\<lparr>llm := (\<lambda>d. Ok_json (JArr [JObj [(''generated_text'',
                                   JStr ''I think {maybe} it is} fine'')]]))\<rparr>"

text \<open>
  A classification service that answers with the JSON object and a remark in braces
  behind it; \<open>JSON.parse\<close> accepts the object alone.
\<close>

definition chatty_reply :: string where
  "chatty_reply = ''Here you go: '' @ relevant_json @ '' {estimated}''"

definition chatty_services :: services where
  "chatty_services =
     relevant_services\<lparr>llm := (\<lambda>d. Ok_json (JArr [JObj [(''generated_text'',
                                       JStr chatty_reply)]]))\<rparr>"

text \<open>A table with rows of two users, for the gallery reader.\<close>

definition gallery_row :: "nat \<Rightarrow> string \<Rightarrow> int option \<Rightarrow> nat \<Rightarrow> image_row" where
  "gallery_row i owner ord created =
     \<lparr>row_id = i, user_id = owner, storage_path = owner @ ''/'' @ string_of_nat i,
      image_url = ''https://cdn/'' @ owner @ ''/'' @ string_of_nat i, display_order = ord,
      created_at = created, bristol_score = JNull, size_score = JNull,
      health_indicators = JNull, analysis_notes = JNull, warnings = JNull,
      is_analyzed = False\<rparr>"

definition gallery_world :: world where
  "gallery_world =
     empty_world\<lparr>user_images :=
       [gallery_row 1 ''u1'' None 10, gallery_row 2 ''u1'' (Some 2) 20,
        gallery_row 3 ''u2'' (Some 1) 30, gallery_row 4 ''u1'' (Some 2) 40,
        gallery_row 5 ''u1'' None 50, gallery_row 6 ''u1'' (Some 1) 5]\<rparr>"

definition idle_gallery :: images_state where
  "idle_gallery = \<lparr>images = [], loading = True, load_error = None\<rparr>"

text \<open>The world after \<open>a.png\<close> and \<open>b.png\<close> have been uploaded, and the result for a sample.\<close>

definition second_row :: image_row where
  "second_row =
     \<lparr>row_id = 2, user_id = ''u1'', storage_path = ''u1/1700000000001_b.png'',
      image_url = ''https://cdn/u1/1700000000001_b.png'', display_order = None, created_at = 2,
      bristol_score = JNull, size_score = JNull, health_indicators = JNull,
      analysis_notes = JNull, warnings = JNull, is_analyzed = False\<rparr>"

definition uploaded_world :: world where
  "uploaded_world =
     \<lparr>objects = [''u1/1700000000000_a.png'' \<mapsto> demo_file ''a.png'',
                 ''u1/1700000000001_b.png'' \<mapsto> demo_file ''b.png''],
      user_images = [first_row, second_row], ticks = 2, events = []\<rparr>"

definition four_result :: analysis_result where
  "four_result =
     \<lparr>success = True, error_text = None, isRelevant = JBool True, bristolScore = JNum 4,
      sizeEstimation = JUndefined, healthIndicators = null_indicators, ar_warnings = JArr [],
      ar_notes = JNull\<rparr>"

section \<open>Properties of JavaScript numbers\<close>

declare binexp.simps [simp del]

lemma binexp_ge2: "2 \<le> x \<Longrightarrow> binexp x = binexp (x / 2) + 1"
  by (subst binexp.simps) simp

lemma binexp_lt1: "0 < x \<Longrightarrow> x < 1 \<Longrightarrow> binexp x = binexp (x * 2) - 1"
  by (subst binexp.simps) simp

lemma binexp_unit: "1 \<le> x \<Longrightarrow> x < 2 \<Longrightarrow> binexp x = 0"
  by (subst binexp.simps) simp







text \<open>Evaluation of \<open>dbl\<close> at a numeral.\<close>

lemma floor_numeral_div: "\<lfloor>(numeral a :: rat) / numeral b\<rfloor> = numeral a div numeral b"
  using floor_divide_of_int_eq [of "numeral a" "numeral b", where ?'a = rat] by simp

lemmas dbl_eval = dbl_def round_even_def binexp_ge2 binexp_lt1 binexp_unit Let_def
  floor_numeral_div power_int_minus_divide

section \<open>Properties of the resizer\<close>

declare tryCompress.simps [simp del]









text \<open>
  \<^bold>\<open>C5.\<close> A file whose image is at most 1920 pixels wide and whose size is at most
  2 MB (2 * 1024 * 1024 bytes) passes through \<open>resizeImage\<close> unchanged: the file resolved is
  the input file, byte for byte, \<open>newSize\<close> equals \<open>originalSize\<close>, \<open>wasCompressed\<close> is false,
  and the encoder is never called.
\<close>

theorem resizeImage_identity_within_limits:
  assumes "img_width img \<le> 1920" and "size_of f \<le> 2 * 1024 * 1024"
  shows "res_file (resizeImage ops toBlob now f img) = f
       \<and> content (res_file (resizeImage ops toBlob now f img)) = content f
       \<and> originalSize (resizeImage ops toBlob now f img) = size_of f
       \<and> newSize (resizeImage ops toBlob now f img)
           = originalSize (resizeImage ops toBlob now f img)
       \<and> wasCompressed (resizeImage ops toBlob now f img) = False
       \<and> resize_encodes ops toBlob f img = []"
  using assms
  by (simp add: resizeImage_def resize_encodes_def needsResize_def MAX_WIDTH_def
      MAX_FILE_SIZE_def)

theorem resizeImage_identity_within_limits_witness:
  "img_width \<lparr>img_width = 1920, img_height = 1080\<rparr> \<le> 1920
   \<and> size_of \<lparr>name = ''a.png'', ftype = ''image/png'', content = replicate 2097152 0,
              lastModified = 7\<rparr> \<le> 2 * 1024 * 1024
   \<and> resizeImage double_quality (\<lambda>cv ty q. []) 9
        \<lparr>name = ''a.png'', ftype = ''image/png'', content = replicate 2097152 0,
         lastModified = 7\<rparr> \<lparr>img_width = 1920, img_height = 1080\<rparr>
      = \<lparr>res_file = \<lparr>name = ''a.png'', ftype = ''image/png'', content = replicate 2097152 0,
                      lastModified = 7\<rparr>,
         originalSize = 2097152, newSize = 2097152, wasCompressed = False\<rparr>"
  using resizeImage_identity_within_limits
    [of "\<lparr>img_width = 1920, img_height = 1080\<rparr>"
        "\<lparr>name = ''a.png'', ftype = ''image/png'', content = replicate 2097152 0,
         lastModified = 7\<rparr>" double_quality "\<lambda>cv ty q. []" 9]
  by (simp add: size_of_def resizeImage_def needsResize_def MAX_WIDTH_def MAX_FILE_SIZE_def)














section \<open>Properties of the upload loop\<close>

declare string_of_nat.simps [simp del]

lemmas string_of_nat_numeral [simp] = string_of_nat.simps [of "numeral k"] for k
lemmas string_of_nat_0 [simp] = string_of_nat.simps [of 0]
lemmas string_of_nat_Suc_0 [simp] = string_of_nat.simps [of "Suc 0"]

lemma digit_values [simp]:
  "digit 0 = CHR ''0''" "digit (Suc 0) = CHR ''1''" "digit 2 = CHR ''2''" "digit 3 = CHR ''3''"
  "digit 4 = CHR ''4''" "digit 5 = CHR ''5''" "digit 6 = CHR ''6''" "digit 7 = CHR ''7''"
  "digit 8 = CHR ''8''" "digit 9 = CHR ''9''"
  by (simp_all add: digit_def)

lemma demo_path [simp]:
  "storagePath demo_user 1700000000000 (demo_file nm) = ''u1/1700000000000_'' @ nm"
  "storagePath demo_user 1700000000001 (demo_file nm) = ''u1/1700000000001_'' @ nm"
  "storagePath demo_user 1700000000002 (demo_file nm) = ''u1/1700000000002_'' @ nm"
  by (simp_all add: storagePath_def demo_user_def demo_file_def)

lemma progress_values [simp]: "progress (Suc 0) 3 = 33" "progress (Suc 0) 2 = 50"
  "progress 2 2 = 100" "progress (Suc 0) (Suc 0) = 100"
  "progress (Suc 0) (Suc (Suc 0)) = 50" "progress (Suc (Suc 0)) (Suc (Suc 0)) = 100"
  by (simp_all add: progress_def dbl_eval)

text \<open>
  The percentage is the one of the Numbers, not of the exact quotient: 23 of 40 files
  are 57.5 per cent, the product computed is 57.49999999999999, and the bar shows 57.
\<close>

lemma progress_23_of_40: "progress 23 40 = 57"
  by (simp add: progress_def dbl_eval)

text \<open>
  \<^bold>\<open>C2.\<close> When the user is at the limit (\<open>currentImageCount >= 60\<close>) or the batch would
  go past it (\<open>currentImageCount + N > 60\<close>), \<open>handleUpload\<close> returns before any call to the
  bucket or the table: the component state, the bucket, the table and the clock are as
  before, and the only event is the notification. When the user is below the limit the
  notification is \<open>You can only upload R more image(s)\<close> with \<open>R = 60 - currentImageCount\<close>.
  (With an empty selection nothing happens at all.)
\<close>

theorem handleUpload_quota_rejects:
  assumes "c \<ge> 60 \<or> c + int (length (selectedFiles st)) > 60"
  shows "fst (handleUpload be usr c onRefetch (st, w)) = st
       \<and> objects (snd (handleUpload be usr c onRefetch (st, w))) = objects w
       \<and> user_images (snd (handleUpload be usr c onRefetch (st, w))) = user_images w
       \<and> ticks (snd (handleUpload be usr c onRefetch (st, w))) = ticks w
       \<and> events (snd (handleUpload be usr c onRefetch (st, w))) =
           events w @
             (if selectedFiles st = [] then []
              else if c \<ge> 60
              then [Toast_error ''You have reached the maximum limit of 60 images'']
              else [Toast_error (''You can only upload '' @ string_of_int (60 - c) @
                                 '' more image(s)'')])"
  using assms by (auto simp: handleUpload_def emit_def Let_def)

theorem handleUpload_quota_rejects_witness:
  "59 + int (length (selectedFiles (demo_state [demo_file ''a.png'', demo_file ''b.png''])))
     > 60
   \<and> fst (handleUpload demo_backend (Some demo_user) 59 True
            (demo_state [demo_file ''a.png'', demo_file ''b.png''], empty_world))
       = demo_state [demo_file ''a.png'', demo_file ''b.png'']
   \<and> objects (snd (handleUpload demo_backend (Some demo_user) 59 True
            (demo_state [demo_file ''a.png'', demo_file ''b.png''], empty_world)))
       = Map.empty
   \<and> user_images (snd (handleUpload demo_backend (Some demo_user) 59 True
            (demo_state [demo_file ''a.png'', demo_file ''b.png''], empty_world))) = []
   \<and> events (snd (handleUpload demo_backend (Some demo_user) 59 True
            (demo_state [demo_file ''a.png'', demo_file ''b.png''], empty_world)))
       = [Toast_error ''You can only upload 1 more image(s)'']"
proof -
  have over: "59 \<ge> (60::int) \<or>
      59 + int (length (selectedFiles (demo_state [demo_file ''a.png'', demo_file ''b.png''])))
        > 60"
    by (simp add: demo_state_def)
  from handleUpload_quota_rejects [OF over, of demo_backend "Some demo_user" True empty_world]
  show ?thesis
    by (simp add: demo_state_def empty_world_def string_of_int_def)
qed

lemma upload_files_append:
  "upload_files be u t (xs @ ys) w acc n st =
     (case upload_files be u t xs w acc n st of
        (Inl m, w', st') \<Rightarrow> (Inl m, w', st')
      | (Inr (acc', n'), w', st') \<Rightarrow> upload_files be u t ys w' acc' n' st')"
proof (induction xs arbitrary: w acc n st)
  case Nil
  then show ?case by simp
next
  case (Cons x xs)
  show ?case
    by (simp add: Let_def Cons.IH split: prod.split option.split sum.split)
qed

lemma upload_files_selection:
  "upload_files be u t fs w acc n st = (res, w', st') \<Longrightarrow>
   selectedFiles st' = selectedFiles st \<and> previews st' = previews st
   \<and> fileSizeInfo st' = fileSizeInfo st \<and> uploading st' = uploading st
   \<and> analyzing st' = analyzing st"
proof (induction fs arbitrary: w acc n st)
  case Nil
  then show ?case by auto
next
  case (Cons f fs)
  from Cons.prems show ?case
    by (auto simp: Let_def split: prod.splits option.splits sum.splits dest!: Cons.IH)
qed

text \<open>
  One round of the loop in which the write is accepted and the insert refused: the
  removal is called, and the object is gone when the bucket carries the removal out.
\<close>

lemma upload_files_insert_refused:
  assumes "fst (storage_upload be (storagePath u (clock be (ticks w)) f) f
                  (w\<lparr>ticks := Suc (ticks w)\<rparr>)) = None"
    and "fst (db_insert be
                \<lparr>ins_user_id = uid u,
                   ins_storage_path = storagePath u (clock be (ticks w)) f,
                   ins_image_url = publicUrl be (storagePath u (clock be (ticks w)) f)\<rparr>
                (snd (storage_upload be (storagePath u (clock be (ticks w)) f) f
                        (w\<lparr>ticks := Suc (ticks w)\<rparr>)))) = Inl msg"
  shows "upload_files be u t (f # fs) w acc n st =
           (Inl (''Failed to save image record: '' @ msg),
            w\<lparr>ticks := Suc (ticks w),
              events := events w @
                [Storage_upload (storagePath u (clock be (ticks w)) f),
                 Db_insert (storagePath u (clock be (ticks w)) f),
                 Storage_remove (storagePath u (clock be (ticks w)) f)],
              objects :=
                (if remove_error be (storagePath u (clock be (ticks w)) f) = None
                 then objects w
                 else (objects w)(storagePath u (clock be (ticks w)) f \<mapsto> f))\<rparr>, st)
       \<and> objects w (storagePath u (clock be (ticks w)) f) = None
       \<and> objects (snd (storage_upload be (storagePath u (clock be (ticks w)) f) f
                         (w\<lparr>ticks := Suc (ticks w)\<rparr>)))
           (storagePath u (clock be (ticks w)) f) = Some f"
proof -
  let ?p = "storagePath u (clock be (ticks w)) f"
  from assms(1) have up: "upload_error be ?p f = None" and free: "objects w ?p = None"
    by (auto simp: storage_upload_def emit_def Let_def split: option.splits if_splits)
  from assms(2) up free
  have ins: "insert_error be (user_images w)
               \<lparr>ins_user_id = uid u, ins_storage_path = ?p, ins_image_url = publicUrl be ?p\<rparr>
             = Some msg"
    by (auto simp: storage_upload_def db_insert_def emit_def Let_def split: option.splits)
  have same: "(objects w)(?p := None) = objects w"
    using free by (simp add: fun_upd_idem)
  show ?thesis
  proof (cases "remove_error be ?p")
    case None
    with up free ins same show ?thesis
      by (simp add: storage_upload_def db_insert_def storage_remove_def emit_def Let_def)
  next
    case (Some e)
    with up free ins show ?thesis
      by (simp add: storage_upload_def db_insert_def storage_remove_def emit_def Let_def)
  qed
qed

lemma strict_first_round:
  "upload_files strict_backend demo_user 3 [demo_file ''a.png''] empty_world [] 0
     (demo_state [demo_file ''a.png'', demo_file ''b.png'', demo_file ''c.png'']
        \<lparr>uploading := True, uploadProgress := 0\<rparr>)
   = (Inr ([first_row], Suc 0), world_after_first,
      demo_state [demo_file ''a.png'', demo_file ''b.png'', demo_file ''c.png'']
        \<lparr>uploading := True, uploadProgress := 33\<rparr>)"
  by (simp add: strict_backend_def demo_backend_def empty_world_def storage_upload_def
      db_insert_def new_row_def fresh_id_def emit_def Let_def first_row_def
      world_after_first_def demo_state_def, simp add: demo_user_def demo_file_def)

text \<open>
  A round of a batch in which the bucket accepts the write of a file \<open>f\<close> at its derived
  key and the table then refuses the insert, the files before \<open>f\<close> uploaded and inserted.
  \<open>handleUpload\<close> calls the removal before it reports the error: the events of the round
  are the upload, the insert, the removal and only then the notification, and the table
  is as before the round. When the bucket carries the removal out, it holds nothing at the
  key afterwards and is as before the round; when it refuses, the object stays.
\<close>

lemma handleUpload_refused_insert_round:
  fixes be :: backend and u :: user and f :: js_file and wp :: world and st :: ui_state
    and w :: world and c :: int and onRefetch :: bool
  defines "path \<equiv> storagePath u (clock be (ticks wp)) f"
  defines "written \<equiv> storage_upload be path f (wp\<lparr>ticks := Suc (ticks wp)\<rparr>)"
  defines "r \<equiv> handleUpload be (Some u) c onRefetch (st, w)"
  assumes batch: "selectedFiles st = pre @ f # post"
    and quota: "c < 60" "c + int (length (selectedFiles st)) \<le> 60"
    and earlier: "upload_files be u (length (selectedFiles st)) pre w [] 0
                    (st\<lparr>uploading := True, uploadProgress := 0\<rparr>) = (Inr acc, wp, stp)"
    and write_ok: "fst written = None"
    and insert_refused:
      "fst (db_insert be \<lparr>ins_user_id = uid u, ins_storage_path = path,
                           ins_image_url = publicUrl be path\<rparr> (snd written)) = Inl msg"
  shows "objects (snd written) path = Some f
       \<and> (remove_error be path = None \<longrightarrow>
            objects (snd r) path = None \<and> objects (snd r) = objects wp)
       \<and> (remove_error be path \<noteq> None \<longrightarrow> objects (snd r) path = Some f)
       \<and> user_images (snd r) = user_images wp
       \<and> events (snd r) =
           events wp @
             [Storage_upload path, Db_insert path, Storage_remove path,
              Console_error ''Upload failed:'',
              Toast_error (''Failed to save image record: '' @ msg)]"
proof -
  obtain imgs n where acc: "acc = (imgs, n)" by (cases acc)
  note step = upload_files_insert_refused
    [of be u wp f msg "length (selectedFiles st)" post imgs n stp,
     folded path_def, folded written_def, OF write_ok insert_refused]
  have loop: "upload_files be u (length (selectedFiles st)) (selectedFiles st) w [] 0
               (st\<lparr>uploading := True, uploadProgress := 0\<rparr>)
             = (Inl (''Failed to save image record: '' @ msg),
                wp\<lparr>ticks := Suc (ticks wp),
                   events := events wp @
                     [Storage_upload path, Db_insert path, Storage_remove path],
                   objects := (if remove_error be path = None then objects wp
                               else (objects wp)(path \<mapsto> f))\<rparr>, stp)"
    unfolding batch [unfolded append_Cons] upload_files_append
    using earlier step by (simp add: acc batch)
  have nonempty: "selectedFiles st \<noteq> []"
    by (simp add: batch)
  have "r = (stp\<lparr>uploading := False\<rparr>,
             emit (Toast_error (''Failed to save image record: '' @ msg))
               (emit (Console_error ''Upload failed:'')
                  (wp\<lparr>ticks := Suc (ticks wp),
                     events := events wp @
                       [Storage_upload path, Db_insert path, Storage_remove path],
                     objects := (if remove_error be path = None then objects wp
                                 else (objects wp)(path \<mapsto> f))\<rparr>)))"
    using quota nonempty loop by (simp add: r_def handleUpload_def Let_def)
  with step show ?thesis
    by (simp add: emit_def)
qed

text \<open>
  At a table that takes one row and a bucket that carries every removal out: of
  \<open>a.png\<close>, \<open>b.png\<close> and \<open>c.png\<close> the first is committed, the object of the second is written
  and removed again, and the third is not reached.
\<close>

lemma strict_backend_removes_written_object:
  "objects (snd (handleUpload strict_backend (Some demo_user) 0 True
            (demo_state [demo_file ''a.png'', demo_file ''b.png'', demo_file ''c.png''],
             empty_world))) ''u1/1700000000001_b.png'' = None
   \<and> map storage_path (user_images (snd (handleUpload strict_backend (Some demo_user) 0 True
            (demo_state [demo_file ''a.png'', demo_file ''b.png'', demo_file ''c.png''],
             empty_world)))) = [''u1/1700000000000_a.png'']
   \<and> events (snd (handleUpload strict_backend (Some demo_user) 0 True
            (demo_state [demo_file ''a.png'', demo_file ''b.png'', demo_file ''c.png''],
             empty_world)))
       = [Storage_upload ''u1/1700000000000_a.png'', Db_insert ''u1/1700000000000_a.png'',
          Storage_upload ''u1/1700000000001_b.png'', Db_insert ''u1/1700000000001_b.png'',
          Storage_remove ''u1/1700000000001_b.png'', Console_error ''Upload failed:'',
          Toast_error ''Failed to save image record: row limit'']"
proof -
  let ?st = "demo_state [demo_file ''a.png'', demo_file ''b.png'', demo_file ''c.png'']"
  have batch: "selectedFiles ?st = [demo_file ''a.png''] @ demo_file ''b.png'' # [demo_file ''c.png'']"
    by (simp add: demo_state_def)
  have len: "length (selectedFiles ?st) = 3"
    by (simp add: demo_state_def)
  have q1: "(0::int) < 60" by simp
  have q2: "0 + int (length (selectedFiles ?st)) \<le> 60"
    by (simp add: demo_state_def)
  have earlier: "upload_files strict_backend demo_user (length (selectedFiles ?st))
      [demo_file ''a.png''] empty_world [] 0 (?st\<lparr>uploading := True, uploadProgress := 0\<rparr>)
      = (Inr ([first_row], Suc 0), world_after_first, ?st\<lparr>uploading := True, uploadProgress := 33\<rparr>)"
    unfolding len by (rule strict_first_round)
  have clk: "clock strict_backend (ticks world_after_first) = 1700000000001"
    by (simp add: strict_backend_def demo_backend_def world_after_first_def)
  have rm: "remove_error strict_backend p = None" for p
    by (simp add: strict_backend_def demo_backend_def)
  have wr: "fst (storage_upload strict_backend
              (storagePath demo_user (clock strict_backend (ticks world_after_first))
                 (demo_file ''b.png'')) (demo_file ''b.png'')
              (world_after_first\<lparr>ticks := Suc (ticks world_after_first)\<rparr>)) = None"
    by (simp add: clk) (simp add: storage_upload_def strict_backend_def demo_backend_def
        world_after_first_def emit_def Let_def)
  have ins: "fst (db_insert strict_backend
       \<lparr>ins_user_id = uid demo_user,
          ins_storage_path = storagePath demo_user (clock strict_backend (ticks world_after_first))
                 (demo_file ''b.png''),
          ins_image_url = publicUrl strict_backend
             (storagePath demo_user (clock strict_backend (ticks world_after_first))
                 (demo_file ''b.png''))\<rparr>
       (snd (storage_upload strict_backend
              (storagePath demo_user (clock strict_backend (ticks world_after_first))
                 (demo_file ''b.png'')) (demo_file ''b.png'')
              (world_after_first\<lparr>ticks := Suc (ticks world_after_first)\<rparr>)))) = Inl ''row limit''"
    by (simp add: clk) (simp add: storage_upload_def db_insert_def strict_backend_def
        demo_backend_def world_after_first_def emit_def Let_def)
  note inst = handleUpload_refused_insert_round [OF batch q1 q2 earlier wr ins, of True]
  from inst show ?thesis
    by (simp add: clk rm) (simp add: world_after_first_def first_row_def)
qed


text \<open>The loop only adds to the bucket and to the table, and what it adds stays.\<close>

lemma upload_files_committed:
  "upload_files be u t fs w acc n st = (res, w', st') \<Longrightarrow>
   (\<exists>new. user_images w' = user_images w @ new
      \<and> (case res of Inl m \<Rightarrow> length new < length fs
                    | Inr a \<Rightarrow> length new = length fs \<and> fst a = acc @ new)
      \<and> (\<forall>r \<in> set new. objects w' (storage_path r) \<noteq> None))
   \<and> objects w \<subseteq>\<^sub>m objects w'"
proof (induction fs arbitrary: w acc n st)
  case Nil
  then show ?case by auto
next
  case (Cons f fs)
  let ?p = "storagePath u (clock be (ticks w)) f"
  let ?w0 = "w\<lparr>ticks := Suc (ticks w)\<rparr>"
  obtain se w1 where up: "storage_upload be ?p f ?w0 = (se, w1)"
    by (cases "storage_upload be ?p f ?w0")
  show ?case
  proof (cases se)
    case (Some e)
    with up Cons.prems have "res = Inl (''Failed to upload '' @ name f @ '': '' @ e)"
      and "w' = w1"
      by (simp_all add: Let_def)
    moreover from up Some have "user_images w1 = user_images w" "objects w1 = objects w"
      by (auto simp: storage_upload_def emit_def Let_def split: option.splits if_splits)
    ultimately show ?thesis
      by simp
  next
    case None
    with up have w1: "user_images w1 = user_images w" "objects w1 = (objects w)(?p \<mapsto> f)"
      and free: "objects w ?p = None"
      by (auto simp: storage_upload_def emit_def Let_def split: option.splits if_splits)
    let ?pl = "\<lparr>ins_user_id = uid u, ins_storage_path = ?p, ins_image_url = publicUrl be ?p\<rparr>"
    obtain ir w2 where ins: "db_insert be ?pl w1 = (ir, w2)"
      by (cases "db_insert be ?pl w1")
    show ?thesis
    proof (cases ir)
      case (Inl e)
      with ins have "user_images w2 = user_images w1" "objects w2 = objects w1"
        by (auto simp: db_insert_def emit_def Let_def split: option.splits)
      moreover from up None ins Inl Cons.prems(1)
      have "res = Inl (''Failed to save image record: '' @ e)" "w' = storage_remove be ?p w2"
        by (simp_all add: Let_def)
      ultimately have "user_images w' = user_images w"
        and "objects w' = objects w \<or> objects w' = (objects w)(?p \<mapsto> f)"
        using w1 free
        by (simp_all add: storage_remove_def emit_def fun_upd_idem Let_def split: option.splits)
      then have "user_images w' = user_images w" "objects w \<subseteq>\<^sub>m objects w'"
        using free by (auto simp: map_le_def)
      with \<open>res = Inl _\<close> show ?thesis
        by simp
    next
      case (Inr row)
      with ins have w2: "user_images w2 = user_images w1 @ [row]" "objects w2 = objects w1"
        and row: "storage_path row = ?p"
        by (auto simp: db_insert_def new_row_def emit_def Let_def split: option.splits)
      from up None ins Inr Cons.prems(1)
      have rest: "upload_files be u t fs w2 (acc @ [row]) (n + 1)
                   (st\<lparr>uploadProgress := progress (n + 1) t\<rparr>) = (res, w', st')"
        by (simp add: Let_def)
      from Cons.IH [OF rest] obtain new where
        new: "user_images w' = user_images w2 @ new"
          "case res of Inl m \<Rightarrow> length new < length fs
                     | Inr a \<Rightarrow> length new = length fs \<and> fst a = (acc @ [row]) @ new"
          "\<forall>r \<in> set new. objects w' (storage_path r) \<noteq> None"
        and mono: "objects w2 \<subseteq>\<^sub>m objects w'"
        by blast
      have kept: "objects w' ?p = Some f"
        using mono w2 w1 by (auto simp: map_le_def dom_def)
      have grow: "objects w \<subseteq>\<^sub>m objects w2"
        using w1 w2 free by (auto simp: map_le_def)
      have "user_images w' = user_images w @ (row # new)"
        using new(1) w2 w1 by simp
      moreover have "case res of Inl m \<Rightarrow> length (row # new) < length (f # fs)
                     | Inr a \<Rightarrow> length (row # new) = length (f # fs) \<and> fst a = acc @ (row # new)"
        using new(2) by (auto split: sum.splits)
      moreover have "\<forall>r \<in> set (row # new). objects w' (storage_path r) \<noteq> None"
        using new(3) kept row by simp
      moreover have "objects w \<subseteq>\<^sub>m objects w'"
        using grow mono by (rule map_le_trans)
      ultimately show ?thesis
        by blast
    qed
  qed
qed

lemma strict_loop_aborts:
  "fst (upload_files strict_backend demo_user 3
          [demo_file ''a.png'', demo_file ''b.png'', demo_file ''c.png''] empty_world [] 0
          (demo_state [demo_file ''a.png'', demo_file ''b.png'', demo_file ''c.png'']
             \<lparr>uploading := True, uploadProgress := 0\<rparr>))
   = Inl ''Failed to save image record: row limit''"
  by (simp add: strict_backend_def demo_backend_def empty_world_def storage_upload_def
      db_insert_def new_row_def fresh_id_def emit_def Let_def demo_state_def
      storage_remove_def)

lemma handleUpload_clears:
  assumes "selectedFiles st \<noteq> []" and "c < 60"
    and "c + int (length (selectedFiles st)) \<le> 60"
    and "upload_files be u (length (selectedFiles st)) (selectedFiles st) w [] 0
           (st\<lparr>uploading := True, uploadProgress := 0\<rparr>) = (Inr a, w1, st1)"
  shows "fst (handleUpload be (Some u) c onRefetch (st, w)) =
           st1\<lparr>uploadProgress := 0, uploading := False, analyzing := False,
               selectedFiles := [], previews := [], fileSizeInfo := []\<rparr>"
  using assms
  by (cases a) (simp add: handleUpload_def Let_def split: prod.splits bool.splits)

lemma demo_single_upload:
  "upload_files demo_backend demo_user (length (selectedFiles (demo_state [demo_file ''a.png''])))
     (selectedFiles (demo_state [demo_file ''a.png''])) empty_world [] 0
     (demo_state [demo_file ''a.png'']\<lparr>uploading := True, uploadProgress := 0\<rparr>)
   = (Inr ([first_row], Suc 0),
      \<lparr>objects = [''u1/1700000000000_a.png'' \<mapsto> demo_file ''a.png''],
        user_images = [first_row], ticks = 1,
        events = [Storage_upload ''u1/1700000000000_a.png'',
                  Db_insert ''u1/1700000000000_a.png'']\<rparr>,
      demo_state [demo_file ''a.png'']\<lparr>uploading := True, uploadProgress := 100\<rparr>)"
proof -
  have sel: "selectedFiles (demo_state [demo_file ''a.png'']) = [demo_file ''a.png'']"
    by (simp add: demo_state_def)
  show ?thesis
    unfolding sel
    by (simp add: demo_backend_def empty_world_def storage_upload_def db_insert_def
        new_row_def fresh_id_def emit_def Let_def first_row_def demo_state_def,
        simp add: demo_user_def demo_file_def)
qed

text \<open>
  \<^bold>\<open>C10.\<close> When the upload loop of a batch ends in an error (a refused write or a refused
  insert), \<open>selectedFiles\<close>, \<open>previews\<close> and \<open>fileSizeInfo\<close> are exactly as before the attempt,
  and the rows and objects of the files committed earlier in the batch stay; so a retry
  runs over every selected file again, the committed ones included. The three lists change
  only when the loop has gone through every file, and then they are emptied.
\<close>

theorem handleUpload_abort_keeps_selection:
  fixes be :: backend and usr :: "user option" and c :: int and onRefetch :: bool
    and st :: ui_state and w :: world
  defines "r \<equiv> handleUpload be usr c onRefetch (st, w)"
  shows "(\<forall>u m w1 st1.
            usr = Some u \<and> c < 60 \<and> c + int (length (selectedFiles st)) \<le> 60
            \<and> upload_files be u (length (selectedFiles st)) (selectedFiles st) w [] 0
                 (st\<lparr>uploading := True, uploadProgress := 0\<rparr>) = (Inl m, w1, st1)
            \<longrightarrow> selectedFiles (fst r) = selectedFiles st
                \<and> previews (fst r) = previews st
                \<and> fileSizeInfo (fst r) = fileSizeInfo st
                \<and> \<not> uploading (fst r)
                \<and> (\<exists>new. user_images (snd r) = user_images w @ new
                      \<and> length new < length (selectedFiles st)
                      \<and> (\<forall>row \<in> set new. objects (snd r) (storage_path row) \<noteq> None)))
       \<and> ((selectedFiles (fst r) \<noteq> selectedFiles st \<or> previews (fst r) \<noteq> previews st
            \<or> fileSizeInfo (fst r) \<noteq> fileSizeInfo st)
           \<longrightarrow> (\<exists>u imgs n w1 st1.
                  usr = Some u \<and> c < 60 \<and> c + int (length (selectedFiles st)) \<le> 60
                  \<and> upload_files be u (length (selectedFiles st)) (selectedFiles st) w [] 0
                       (st\<lparr>uploading := True, uploadProgress := 0\<rparr>) = (Inr (imgs, n), w1, st1)
                  \<and> length imgs = length (selectedFiles st)
                  \<and> selectedFiles (fst r) = [] \<and> previews (fst r) = []
                  \<and> fileSizeInfo (fst r) = []))"
proof (rule conjI; (intro allI)?; rule impI)
  fix u m w1 st1
  assume a: "usr = Some u \<and> c < 60 \<and> c + int (length (selectedFiles st)) \<le> 60
            \<and> upload_files be u (length (selectedFiles st)) (selectedFiles st) w [] 0
                 (st\<lparr>uploading := True, uploadProgress := 0\<rparr>) = (Inl m, w1, st1)"
  then have loop: "upload_files be u (length (selectedFiles st)) (selectedFiles st) w [] 0
                 (st\<lparr>uploading := True, uploadProgress := 0\<rparr>) = (Inl m, w1, st1)"
    by simp
  have ne: "selectedFiles st \<noteq> []"
    using loop by auto
  have r: "r = (st1\<lparr>uploading := False\<rparr>,
                emit (Toast_error (if m = [] then ''Failed to upload images'' else m))
                  (emit (Console_error ''Upload failed:'') w1))"
    using a ne by (simp add: r_def handleUpload_def Let_def)
  from upload_files_selection [OF loop]
  have sel: "selectedFiles st1 = selectedFiles st" "previews st1 = previews st"
    "fileSizeInfo st1 = fileSizeInfo st"
    by simp_all
  from upload_files_committed [OF loop] obtain new where
    "user_images w1 = user_images w @ new" "length new < length (selectedFiles st)"
    "\<forall>row \<in> set new. objects w1 (storage_path row) \<noteq> None"
    by auto
  then have "\<exists>new. user_images (snd r) = user_images w @ new
                      \<and> length new < length (selectedFiles st)
                      \<and> (\<forall>row \<in> set new. objects (snd r) (storage_path row) \<noteq> None)"
    by (auto simp: r emit_def)
  with sel show "selectedFiles (fst r) = selectedFiles st
                \<and> previews (fst r) = previews st
                \<and> fileSizeInfo (fst r) = fileSizeInfo st
                \<and> \<not> uploading (fst r)
                \<and> (\<exists>new. user_images (snd r) = user_images w @ new
                      \<and> length new < length (selectedFiles st)
                      \<and> (\<forall>row \<in> set new. objects (snd r) (storage_path row) \<noteq> None))"
    by (simp add: r)
next
  assume ch: "selectedFiles (fst r) \<noteq> selectedFiles st \<or> previews (fst r) \<noteq> previews st
            \<or> fileSizeInfo (fst r) \<noteq> fileSizeInfo st"
  have ne: "selectedFiles st \<noteq> []"
    using ch by (auto simp: r_def handleUpload_def Let_def)
  have q: "c < 60" "c + int (length (selectedFiles st)) \<le> 60"
    using ch ne by (auto simp: r_def handleUpload_def Let_def split: if_splits)
  obtain u where u: "usr = Some u"
    using ch ne q by (cases usr) (auto simp: r_def handleUpload_def Let_def)
  obtain res w1 st1 where loop:
    "upload_files be u (length (selectedFiles st)) (selectedFiles st) w [] 0
       (st\<lparr>uploading := True, uploadProgress := 0\<rparr>) = (res, w1, st1)"
    by (cases "upload_files be u (length (selectedFiles st)) (selectedFiles st) w [] 0
       (st\<lparr>uploading := True, uploadProgress := 0\<rparr>)") auto
  from upload_files_selection [OF loop]
  have sel: "selectedFiles st1 = selectedFiles st" "previews st1 = previews st"
    "fileSizeInfo st1 = fileSizeInfo st"
    by simp_all
  show "\<exists>u imgs n w1 st1.
                  usr = Some u \<and> c < 60 \<and> c + int (length (selectedFiles st)) \<le> 60
                  \<and> upload_files be u (length (selectedFiles st)) (selectedFiles st) w [] 0
                       (st\<lparr>uploading := True, uploadProgress := 0\<rparr>) = (Inr (imgs, n), w1, st1)
                  \<and> length imgs = length (selectedFiles st)
                  \<and> selectedFiles (fst r) = [] \<and> previews (fst r) = []
                  \<and> fileSizeInfo (fst r) = []"
  proof (cases res)
    case (Inl m)
    with loop u q ne sel have "selectedFiles (fst r) = selectedFiles st"
      "previews (fst r) = previews st" "fileSizeInfo (fst r) = fileSizeInfo st"
      by (simp_all add: r_def handleUpload_def Let_def)
    with ch show ?thesis by simp
  next
    case (Inr a)
    obtain imgs n where a: "a = (imgs, n)" by (cases a)
    from upload_files_committed [OF loop] Inr a have "length imgs = length (selectedFiles st)"
      by auto
    moreover have "selectedFiles (fst r) = [] \<and> previews (fst r) = []
                  \<and> fileSizeInfo (fst r) = []"
      using loop u q ne Inr a
      by (simp add: r_def handleUpload_def Let_def split: prod.splits bool.splits)
    ultimately show ?thesis
      using u q loop Inr a by blast
  qed
qed

theorem handleUpload_abort_keeps_selection_witness:
  "selectedFiles (fst (handleUpload strict_backend (Some demo_user) 0 True
      (demo_state [demo_file ''a.png'', demo_file ''b.png'', demo_file ''c.png''],
       empty_world)))
     = [demo_file ''a.png'', demo_file ''b.png'', demo_file ''c.png'']
   \<and> previews (fst (handleUpload strict_backend (Some demo_user) 0 True
      (demo_state [demo_file ''a.png'', demo_file ''b.png'', demo_file ''c.png''],
       empty_world))) = []
   \<and> fileSizeInfo (fst (handleUpload strict_backend (Some demo_user) 0 True
      (demo_state [demo_file ''a.png'', demo_file ''b.png'', demo_file ''c.png''],
       empty_world))) = []
   \<and> \<not> uploading (fst (handleUpload strict_backend (Some demo_user) 0 True
      (demo_state [demo_file ''a.png'', demo_file ''b.png'', demo_file ''c.png''],
       empty_world)))
   \<and> selectedFiles (demo_state [demo_file ''a.png'']) = [demo_file ''a.png'']
   \<and> selectedFiles (fst (handleUpload demo_backend (Some demo_user) 0 True
      (demo_state [demo_file ''a.png''], empty_world))) = []
   \<and> previews (fst (handleUpload demo_backend (Some demo_user) 0 True
      (demo_state [demo_file ''a.png''], empty_world))) = []
   \<and> fileSizeInfo (fst (handleUpload demo_backend (Some demo_user) 0 True
      (demo_state [demo_file ''a.png''], empty_world))) = []"
proof -
  let ?fs = "[demo_file ''a.png'', demo_file ''b.png'', demo_file ''c.png'']"
  let ?st = "demo_state ?fs"
  let ?loop = "upload_files strict_backend demo_user (length (selectedFiles ?st))
       (selectedFiles ?st) empty_world [] 0 (?st\<lparr>uploading := True, uploadProgress := 0\<rparr>)"
  have len: "length (selectedFiles ?st) = 3" and sel: "selectedFiles ?st = ?fs"
    and pv: "previews ?st = []" and fi: "fileSizeInfo ?st = []"
    by (simp_all add: demo_state_def)
  have l3: "length ?fs = 3" by simp
  have "fst ?loop = Inl ''Failed to save image record: row limit''"
    unfolding sel l3 by (rule strict_loop_aborts)
  then have loop: "?loop = (Inl ''Failed to save image record: row limit'',
                            fst (snd ?loop), snd (snd ?loop))"
    by (metis prod.collapse)
  have q1: "(0::int) < 60" by simp
  have q2: "0 + int (length (selectedFiles ?st)) \<le> 60"
    unfolding len by simp
  from handleUpload_abort_keeps_selection
    [of "Some demo_user" 0 ?st strict_backend empty_world True, THEN conjunct1,
     rule_format, OF conjI [OF refl conjI [OF q1 conjI [OF q2 loop]]]]
  have "selectedFiles (fst (handleUpload strict_backend (Some demo_user) 0 True
          (?st, empty_world))) = selectedFiles ?st
      \<and> previews (fst (handleUpload strict_backend (Some demo_user) 0 True
          (?st, empty_world))) = previews ?st
      \<and> fileSizeInfo (fst (handleUpload strict_backend (Some demo_user) 0 True
          (?st, empty_world))) = fileSizeInfo ?st
      \<and> \<not> uploading (fst (handleUpload strict_backend (Some demo_user) 0 True
          (?st, empty_world)))"
    by blast
  then have aborted: "selectedFiles (fst (handleUpload strict_backend (Some demo_user) 0 True
          (?st, empty_world))) = ?fs
      \<and> previews (fst (handleUpload strict_backend (Some demo_user) 0 True
          (?st, empty_world))) = []
      \<and> fileSizeInfo (fst (handleUpload strict_backend (Some demo_user) 0 True
          (?st, empty_world))) = []
      \<and> \<not> uploading (fst (handleUpload strict_backend (Some demo_user) 0 True
          (?st, empty_world)))"
    unfolding sel pv fi .
  let ?one = "demo_state [demo_file ''a.png'']"
  let ?r = "handleUpload demo_backend (Some demo_user) 0 True (?one, empty_world)"
  have sel1: "selectedFiles ?one = [demo_file ''a.png'']"
    by (simp add: demo_state_def)
  have ne: "selectedFiles ?one \<noteq> []" and p2: "0 + int (length (selectedFiles ?one)) \<le> 60"
    by (simp_all add: sel1)
  have "selectedFiles (fst ?r) = []"
    unfolding handleUpload_clears [OF ne q1 p2 demo_single_upload] by simp
  then have changed: "selectedFiles (fst ?r) \<noteq> selectedFiles ?one
      \<or> previews (fst ?r) \<noteq> previews ?one \<or> fileSizeInfo (fst ?r) \<noteq> fileSizeInfo ?one"
    by (simp add: sel1)
  from handleUpload_abort_keeps_selection
    [of "Some demo_user" 0 ?one demo_backend empty_world True, THEN conjunct2,
     rule_format, OF changed]
  have cleared: "selectedFiles (fst ?r) = [] \<and> previews (fst ?r) = []
      \<and> fileSizeInfo (fst ?r) = []"
    by blast
  from aborted sel1 cleared show ?thesis
    by blast
qed

subsection \<open>Storage keys\<close>

lemma digit_inj: "a < 10 \<Longrightarrow> b < 10 \<Longrightarrow> digit a = digit b \<Longrightarrow> a = b"
proof -
  assume a: "a < 10" and b: "b < 10" and e: "digit a = digit b"
  have d: "distinct ''0123456789''" by simp
  have "length ''0123456789'' = 10" by simp
  with a b e d show ?thesis
    unfolding digit_def by (metis nth_eq_iff_index_eq)
qed

lemma digit_not_underscore: "d < 10 \<Longrightarrow> digit d \<noteq> CHR ''_''"
proof -
  assume "d < 10"
  then have "digit d \<in> set ''0123456789''"
    unfolding digit_def by (intro nth_mem) simp
  then show ?thesis by auto
qed

lemma string_of_nat_nonempty: "string_of_nat n \<noteq> []"
  by (subst string_of_nat.simps) simp

lemma string_of_nat_no_underscore: "CHR ''_'' \<notin> set (string_of_nat n)"
proof (induction n rule: string_of_nat.induct)
  case (1 n)
  show ?case
  proof (cases "n < 10")
    case True
    then show ?thesis
      using digit_not_underscore [of n] by (subst string_of_nat.simps) auto
  next
    case False
    then show ?thesis
      using "1.IH" digit_not_underscore [of "n mod 10"]
      by (subst string_of_nat.simps) auto
  qed
qed

lemma string_of_nat_inj: "string_of_nat n = string_of_nat m \<Longrightarrow> n = m"
proof (induction n arbitrary: m rule: string_of_nat.induct)
  case (1 n)
  show ?case
  proof (cases "n < 10")
    case n: True
    show ?thesis
    proof (cases "m < 10")
      case True
      with n "1.prems" show ?thesis
        by (simp add: string_of_nat.simps [of n] string_of_nat.simps [of m] digit_inj)
    next
      case False
      with n "1.prems" show ?thesis
        using string_of_nat_nonempty [of "m div 10"]
        by (simp add: string_of_nat.simps [of n] string_of_nat.simps [of m])
    qed
  next
    case n: False
    show ?thesis
    proof (cases "m < 10")
      case True
      with n "1.prems" show ?thesis
        using string_of_nat_nonempty [of "n div 10"]
        by (simp add: string_of_nat.simps [of n] string_of_nat.simps [of m])
    next
      case False
      with n "1.prems" have "string_of_nat (n div 10) = string_of_nat (m div 10)"
        and "digit (n mod 10) = digit (m mod 10)"
        by (simp_all add: string_of_nat.simps [of n] string_of_nat.simps [of m])
      then have "n div 10 = m div 10" and "n mod 10 = m mod 10"
        using "1.IH" [OF n] digit_inj [of "n mod 10" "m mod 10"] by simp_all
      then show ?thesis
        by (metis div_mult_mod_eq)
    qed
  qed
qed

lemma split_at_mark:
  "c \<notin> set xs \<Longrightarrow> c \<notin> set xs' \<Longrightarrow> xs @ c # ys = xs' @ c # ys' \<Longrightarrow> xs = xs' \<and> ys = ys'"
proof (induction xs arbitrary: xs')
  case Nil
  then show ?case by (cases xs') auto
next
  case (Cons x xs)
  then show ?case by (cases xs') auto
qed

lemma storagePath_eq_iff:
  "storagePath u t f = storagePath u t' f' \<longleftrightarrow> t = t' \<and> name f = name f'"
proof
  assume "storagePath u t f = storagePath u t' f'"
  then have "string_of_nat t @ CHR ''_'' # name f = string_of_nat t' @ CHR ''_'' # name f'"
    by (simp add: storagePath_def)
  then have "string_of_nat t = string_of_nat t' \<and> name f = name f'"
    by (rule split_at_mark [OF string_of_nat_no_underscore string_of_nat_no_underscore])
  then show "t = t' \<and> name f = name f'"
    by (simp add: string_of_nat_inj)
next
  assume "t = t' \<and> name f = name f'"
  then show "storagePath u t f = storagePath u t' f'"
    by (simp add: storagePath_def)
qed

lemma storage_uploads_append [simp]:
  "storage_uploads (xs @ ys) = storage_uploads xs @ storage_uploads ys"
  by (induction xs rule: storage_uploads.induct) simp_all

lemma upload_files_keys:
  "upload_files be u t fs w acc n st = (res, w', st') \<Longrightarrow>
   \<exists>k \<le> length fs.
     (case res of Inl m \<Rightarrow> 0 < k | Inr a \<Rightarrow> k = length fs)
     \<and> storage_uploads (events w') =
         storage_uploads (events w) @
           map (\<lambda>i. storagePath u (clock be (ticks w + i)) (fs ! i)) [0..<k]"
proof (induction fs arbitrary: w acc n st)
  case Nil
  then show ?case by auto
next
  case (Cons f fs)
  let ?p = "storagePath u (clock be (ticks w)) f"
  let ?w0 = "w\<lparr>ticks := Suc (ticks w)\<rparr>"
  let ?key = "\<lambda>i. storagePath u (clock be (ticks w + i)) ((f # fs) ! i)"
  obtain se w1 where up: "storage_upload be ?p f ?w0 = (se, w1)"
    by (cases "storage_upload be ?p f ?w0")
  then have w1: "events w1 = events w @ [Storage_upload ?p]" "ticks w1 = Suc (ticks w)"
    by (auto simp: storage_upload_def emit_def Let_def split: option.splits if_splits)
  show ?case
  proof (cases se)
    case (Some e)
    with up Cons.prems have "res = Inl (''Failed to upload '' @ name f @ '': '' @ e)"
      and "w' = w1"
      by (simp_all add: Let_def)
    with w1 have "(case res of Inl m \<Rightarrow> 0 < Suc 0 | Inr a \<Rightarrow> Suc 0 = length (f # fs))
       \<and> storage_uploads (events w') = storage_uploads (events w) @ map ?key [0..<Suc 0]"
      by simp
    then show ?thesis
      by (intro exI [of _ "Suc 0"]) simp
  next
    case None
    let ?pl = "\<lparr>ins_user_id = uid u, ins_storage_path = ?p, ins_image_url = publicUrl be ?p\<rparr>"
    obtain ir w2 where ins: "db_insert be ?pl w1 = (ir, w2)"
      by (cases "db_insert be ?pl w1")
    then have w2: "events w2 = events w1 @ [Db_insert ?p]" "ticks w2 = ticks w1"
      by (auto simp: db_insert_def emit_def Let_def split: option.splits)
    show ?thesis
    proof (cases ir)
      case (Inl e)
      with up None ins Cons.prems
      have "res = Inl (''Failed to save image record: '' @ e)" "w' = storage_remove be ?p w2"
        by (simp_all add: Let_def)
      with w1 w2
      have "(case res of Inl m \<Rightarrow> 0 < Suc 0 | Inr a \<Rightarrow> Suc 0 = length (f # fs))
        \<and> storage_uploads (events w') = storage_uploads (events w) @ map ?key [0..<Suc 0]"
        by (simp add: storage_remove_def emit_def Let_def split: option.splits)
      then show ?thesis
        by (intro exI [of _ "Suc 0"]) simp
    next
      case (Inr row)
      with up None ins Cons.prems
      have rest: "upload_files be u t fs w2 (acc @ [row]) (n + 1)
                   (st\<lparr>uploadProgress := progress (n + 1) t\<rparr>) = (res, w', st')"
        by (simp add: Let_def)
      from Cons.IH [OF rest] obtain k where k: "k \<le> length fs"
        "case res of Inl m \<Rightarrow> 0 < k | Inr a \<Rightarrow> k = length fs"
        "storage_uploads (events w') =
           storage_uploads (events w2) @
             map (\<lambda>i. storagePath u (clock be (ticks w2 + i)) (fs ! i)) [0..<k]"
        by blast
      have "map ?key [0..<Suc k]
              = ?p # map (\<lambda>i. storagePath u (clock be (ticks w2 + i)) (fs ! i)) [0..<k]"
        by (simp add: upt_conv_Cons map_Suc_upt [symmetric] w1 w2 del: upt_Suc)
      with k(3) w1 w2
      have "storage_uploads (events w') = storage_uploads (events w) @ map ?key [0..<Suc k]"
        by simp
      moreover have "case res of Inl m \<Rightarrow> 0 < Suc k | Inr a \<Rightarrow> Suc k = length (f # fs)"
        using k(2) by (auto split: sum.splits)
      ultimately show ?thesis
        using k(1) by (intro exI [of _ "Suc k"]) simp
    qed
  qed
qed

text \<open>
  \<^bold>\<open>C7.\<close> The keys of a batch have to be pairwise distinct, also for files of the same
  name; the loop says so itself (\<open>Create unique filename with timestamp\<close>). But the
  timestamp is whatever \<open>Date.now()\<close> reads when the turn of a file comes, and nothing
  makes two readings differ. With a clock that reads the same millisecond twice, two files
  named \<open>a.png\<close> get the same key \<open>u1/1700000000000_a.png\<close>; the bucket refuses the second
  write and the batch ends there.
\<close>

theorem same_name_same_tick_same_key:
  "storage_uploads (events (snd (handleUpload frozen_backend (Some demo_user) 0 True
      (demo_state [demo_file ''a.png'', demo_file ''a.png''], empty_world))))
     = [''u1/1700000000000_a.png'', ''u1/1700000000000_a.png'']
   \<and> \<not> distinct (storage_uploads (events (snd (handleUpload frozen_backend (Some demo_user) 0
      True (demo_state [demo_file ''a.png'', demo_file ''a.png''], empty_world)))))
   \<and> events (snd (handleUpload frozen_backend (Some demo_user) 0 True
      (demo_state [demo_file ''a.png'', demo_file ''a.png''], empty_world)))
     = [Storage_upload ''u1/1700000000000_a.png'', Db_insert ''u1/1700000000000_a.png'',
        Storage_upload ''u1/1700000000000_a.png'', Console_error ''Upload failed:'',
        Toast_error ''Failed to upload a.png: The resource already exists'']"
proof -
  have ev: "events (snd (handleUpload frozen_backend (Some demo_user) 0 True
      (demo_state [demo_file ''a.png'', demo_file ''a.png''], empty_world)))
     = [Storage_upload ''u1/1700000000000_a.png'', Db_insert ''u1/1700000000000_a.png'',
        Storage_upload ''u1/1700000000000_a.png'', Console_error ''Upload failed:'',
        Toast_error ''Failed to upload a.png: The resource already exists'']"
    by (simp add: handleUpload_def frozen_backend_def demo_backend_def empty_world_def
        storage_upload_def db_insert_def new_row_def fresh_id_def emit_def Let_def
        demo_state_def, simp add: demo_file_def)
  show ?thesis
    unfolding ev by simp
qed

text \<open>
  The form of the keys. The key derived for the \<open>i\<close>-th file of a batch is
  \<open>{user_id}/{timestamp}_{filename}\<close>, the timestamp being the \<open>i\<close>-th reading of the clock
  in the loop; these are the paths handed to \<open>storage.upload\<close>, one per file reached. Two
  such keys are equal exactly when both the timestamps and the file names are equal.
\<close>

lemma upload_keys_form:
  fixes be :: backend and u :: user and fs :: "js_file list" and w w' :: world
  defines "key \<equiv> \<lambda>i. storagePath u (clock be (ticks w + i)) (fs ! i)"
  defines "k \<equiv> length (storage_uploads (events w')) - length (storage_uploads (events w))"
  assumes loop: "upload_files be u t fs w acc n st = (res, w', st')"
  shows "k \<le> length fs \<and> (\<forall>a. res = Inr a \<longrightarrow> k = length fs)
       \<and> storage_uploads (events w') = storage_uploads (events w) @ map key [0..<k]
       \<and> (\<forall>i. key i = uid u @ ''/'' @ string_of_nat (clock be (ticks w + i)) @ ''_'' @
                         name (fs ! i))
       \<and> (\<forall>i j. key i = key j \<longleftrightarrow>
                  clock be (ticks w + i) = clock be (ticks w + j) \<and> name (fs ! i) = name (fs ! j))"
proof -
  from upload_files_keys [OF loop] obtain m where m: "m \<le> length fs"
    "case res of Inl e \<Rightarrow> 0 < m | Inr a \<Rightarrow> m = length fs"
    "storage_uploads (events w') = storage_uploads (events w) @ map key [0..<m]"
    unfolding key_def by blast
  from m(3) have "k = m"
    by (simp add: k_def)
  with m have "k \<le> length fs" "\<forall>a. res = Inr a \<longrightarrow> k = length fs"
    "storage_uploads (events w') = storage_uploads (events w) @ map key [0..<k]"
    by auto
  moreover have "\<forall>i. key i = uid u @ ''/'' @ string_of_nat (clock be (ticks w + i)) @ ''_'' @
                         name (fs ! i)"
    by (simp add: key_def storagePath_def)
  moreover have "\<forall>i j. key i = key j \<longleftrightarrow>
                  clock be (ticks w + i) = clock be (ticks w + j) \<and> name (fs ! i) = name (fs ! j)"
    by (simp add: key_def storagePath_eq_iff)
  ultimately show ?thesis
    by blast
qed

lemma demo_two_same_names:
  "storage_uploads (events (fst (snd (upload_files demo_backend demo_user 2
      [demo_file ''a.png'', demo_file ''a.png''] empty_world [] 0
      (demo_state [demo_file ''a.png'', demo_file ''a.png''])))))
   = [''u1/1700000000000_a.png'', ''u1/1700000000001_a.png'']"
  by (simp add: demo_backend_def empty_world_def storage_upload_def db_insert_def
      new_row_def fresh_id_def emit_def Let_def demo_state_def)

lemma upload_keys_form_advancing_clock:
  "storage_uploads (events (fst (snd (upload_files demo_backend demo_user 2
      [demo_file ''a.png'', demo_file ''a.png''] empty_world [] 0
      (demo_state [demo_file ''a.png'', demo_file ''a.png''])))))
   = [''u1/1700000000000_a.png'', ''u1/1700000000001_a.png'']
   \<and> storagePath demo_user (clock demo_backend (ticks empty_world + 0))
        ([demo_file ''a.png'', demo_file ''a.png''] ! 0)
     \<noteq> storagePath demo_user (clock demo_backend (ticks empty_world + 1))
        ([demo_file ''a.png'', demo_file ''a.png''] ! 1)"
proof -
  let ?fs = "[demo_file ''a.png'', demo_file ''a.png'']"
  let ?loop = "upload_files demo_backend demo_user 2 ?fs empty_world [] 0 (demo_state ?fs)"
  have loop: "?loop = (fst ?loop, fst (snd ?loop), snd (snd ?loop))"
    by (simp only: prod.collapse)
  have tick: "clock demo_backend (ticks empty_world + 0) \<noteq> clock demo_backend (ticks empty_world + 1)"
    by (simp add: demo_backend_def)
  from upload_keys_form [OF loop]
  have "storagePath demo_user (clock demo_backend (ticks empty_world + 0)) (?fs ! 0)
          = storagePath demo_user (clock demo_backend (ticks empty_world + 1)) (?fs ! 1)
        \<longleftrightarrow> clock demo_backend (ticks empty_world + 0) = clock demo_backend (ticks empty_world + 1)
            \<and> name (?fs ! 0) = name (?fs ! 1)"
    by blast
  with tick have "storagePath demo_user (clock demo_backend (ticks empty_world + 0)) (?fs ! 0)
     \<noteq> storagePath demo_user (clock demo_backend (ticks empty_world + 1)) (?fs ! 1)"
    by blast
  with demo_two_same_names show ?thesis
    by blast
qed

section \<open>Properties of the analyzer\<close>

lemma json_match_Some:
  assumes "json_match s = Some m"
  shows "\<exists>pre mid post. s = pre @ m @ post \<and> m = CHR ''{'' # mid @ [CHR ''}'']
           \<and> CHR ''{'' \<notin> set pre \<and> CHR ''}'' \<notin> set post"
proof -
  let ?open = "\<lambda>c. c \<noteq> CHR ''{''" and ?close = "\<lambda>c. c \<noteq> CHR ''}''"
  let ?t = "dropWhile ?open s"
  let ?r = "rev (dropWhile ?close (rev (tl ?t)))"
  from assms have t: "?t \<noteq> []" and r: "?r \<noteq> []" and m: "m = CHR ''{'' # ?r"
    by (auto simp: json_match_def Let_def split: if_splits)
  have hd_t: "hd ?t = CHR ''{''"
    using t hd_dropWhile [of ?open s] by auto
  then have t_eq: "?t = CHR ''{'' # tl ?t"
    using t by (cases ?t) auto
  have s_eq: "s = takeWhile ?open s @ ?t"
    by simp
  have tl_eq: "tl ?t = ?r @ rev (takeWhile ?close (rev (tl ?t)))"
    by (metis rev_append rev_rev_ident takeWhile_dropWhile_id)
  have "dropWhile ?close (rev (tl ?t)) \<noteq> []"
    using r by simp
  then have "hd (dropWhile ?close (rev (tl ?t))) = CHR ''}''"
    using hd_dropWhile [of ?close "rev (tl ?t)"] by auto
  then have last_r: "last ?r = CHR ''}''"
    using r by (simp add: last_rev)
  then have r_eq: "?r = butlast ?r @ [CHR ''}'']"
    using r by (metis append_butlast_last_id)
  have pre: "CHR ''{'' \<notin> set (takeWhile ?open s)"
    by (auto dest: set_takeWhileD)
  have post: "CHR ''}'' \<notin> set (rev (takeWhile ?close (rev (tl ?t))))"
    by (auto dest: set_takeWhileD)
  have "s = takeWhile ?open s @ m @ rev (takeWhile ?close (rev (tl ?t)))"
    using s_eq t_eq tl_eq m by (metis append_Cons)
  moreover have "m = CHR ''{'' # butlast ?r @ [CHR ''}'']"
    using m r_eq by simp
  ultimately show ?thesis
    using pre post by blast
qed

lemma json_match_found:
  assumes "s = pre @ CHR ''{'' # rest @ CHR ''}'' # post"
  shows "json_match s \<noteq> None"
proof -
  let ?open = "\<lambda>c. c \<noteq> CHR ''{''" and ?close = "\<lambda>c. c \<noteq> CHR ''}''"
  let ?t = "dropWhile ?open s"
  have "CHR ''{'' \<in> set s"
    using assms by simp
  then have t: "?t \<noteq> []"
    by (auto simp: dropWhile_eq_Nil_conv)
  have "\<exists>ys. tl ?t = ys @ rest @ CHR ''}'' # post"
  proof (cases "\<forall>c \<in> set pre. ?open c")
    case True
    then have "?t = CHR ''{'' # rest @ CHR ''}'' # post"
      unfolding assms by (simp add: dropWhile_append)
    then show ?thesis by simp
  next
    case False
    then have ne: "dropWhile ?open pre \<noteq> []"
      by (auto simp: dropWhile_eq_Nil_conv)
    from False have "?t = dropWhile ?open pre @ CHR ''{'' # rest @ CHR ''}'' # post"
      unfolding assms by (simp add: dropWhile_append)
    then have "tl ?t = (tl (dropWhile ?open pre) @ [CHR ''{'']) @ rest @ CHR ''}'' # post"
      using ne by simp
    then show ?thesis by blast
  qed
  then have "CHR ''}'' \<in> set (rev (tl ?t))"
    by auto
  then have "dropWhile ?close (rev (tl ?t)) \<noteq> []"
    by (auto simp: dropWhile_eq_Nil_conv)
  with t show ?thesis
    by (simp add: json_match_def Let_def)
qed

lemma parse_fallback_irrelevant:
  "validated_result parse_fallback =
     Inr \<lparr>success = True, error_text = None, isRelevant = JBool False, bristolScore = JNull,
          sizeEstimation = JNull, healthIndicators = null_indicators,
          ar_warnings = JArr [JStr ''Unable to parse analysis results''],
          ar_notes = JStr ''Analysis failed - could not interpret image description''\<rparr>"
  by (simp add: validated_result_def parse_fallback_def null_indicators_def opt_prop_def
      js_or_def nullish_def Let_def)

lemma garbled_match: "json_match ''I think {maybe} it is} fine'' = Some ''{maybe} it is}''"
  by (simp add: json_match_def)

text \<open>
  \<^bold>\<open>C8\<close> as stated fails in one point: the span parsed is not the first \<open>{...}\<close> span of
  the text. The match of \<open>/\{[\s\S]*\}/\<close> is greedy. When the service puts a
  remark in braces behind the JSON object, the match runs on to the last closing brace:
  \<open>JSON.parse\<close> is handed the object with the remark, throws, and the result is the
  structured error, although the first span is an object that parses (there are no nested
  braces in it, so it is the first span on every reading).
\<close>

theorem greedy_match_runs_past_first_object:
  "first_brace_span chatty_reply = Some relevant_json
   \<and> json_parse chatty_services relevant_json
       = Some (JObj [(''isRelevant'', JBool True), (''bristolScore'', JNum 4)])
   \<and> json_match chatty_reply = Some (relevant_json @ '' {estimated}'')
   \<and> json_parse chatty_services (relevant_json @ '' {estimated}'') = None
   \<and> analyzeWithLLM chatty_services (JStr ''a photo'') = Inr parse_fallback"
  by (simp add: first_brace_span_def json_match_def chatty_reply_def relevant_json_def dq_def
      chatty_services_def relevant_services_def analyzeWithLLM_def generated_text_def
      opt_prop_def js_or_def extract_json_def Let_def)

text \<open>
  \<^bold>\<open>C8\<close>, amended. Whatever free text the classification service returns, \<open>analyzeWithLLM\<close> returns a
  value and throws nothing: the text from the first opening brace to the last closing
  brace behind it, parsed, when there is such a span and it parses; the structured
  not-relevant result otherwise. A span is found exactly when the text has an opening brace
  with a closing brace somewhere behind it. On a parse failure, \<open>analyzeStoolImage\<close> returns
  a result with \<open>isRelevant = false\<close> and empty classification fields.
\<close>

theorem analyzeWithLLM_parse_failure_is_result:
  assumes answer: "llm sv d = Ok_json result"
    and reply: "generated_text result = Inr (JStr txt)"
  shows "analyzeWithLLM sv d =
           Inr (case json_match txt of
                  None \<Rightarrow> parse_fallback
                | Some m \<Rightarrow> (case json_parse sv m of None \<Rightarrow> parse_fallback | Some v \<Rightarrow> v))
       \<and> (json_match txt = None \<longleftrightarrow>
            \<not> (\<exists>pre rest post. txt = pre @ CHR ''{'' # rest @ CHR ''}'' # post))
       \<and> (\<forall>m. json_match txt = Some m \<longrightarrow>
            (\<exists>pre mid post. txt = pre @ m @ post \<and> m = CHR ''{'' # mid @ [CHR ''}'']
               \<and> CHR ''{'' \<notin> set pre \<and> CHR ''}'' \<notin> set post))
       \<and> (json_match txt = None \<or> (\<exists>m. json_match txt = Some m \<and> json_parse sv m = None)
            \<longrightarrow> analyzeWithLLM sv d = Inr parse_fallback
              \<and> (\<forall>f. describeImage sv f = Inr d \<longrightarrow>
                    analyzeStoolImage sv f =
                      \<lparr>success = True, error_text = None, isRelevant = JBool False,
                       bristolScore = JNull, sizeEstimation = JNull,
                       healthIndicators = null_indicators,
                       ar_warnings = JArr [JStr ''Unable to parse analysis results''],
                       ar_notes =
                         JStr ''Analysis failed - could not interpret image description''\<rparr>))"
proof -
  have run: "analyzeWithLLM sv d = Inr (extract_json (json_parse sv) (JStr txt))"
    using answer reply by (simp add: analyzeWithLLM_def)
  have extracted: "extract_json (json_parse sv) (JStr txt) =
      (case json_match txt of
                  None \<Rightarrow> parse_fallback
                | Some m \<Rightarrow> (case json_parse sv m of None \<Rightarrow> parse_fallback | Some v \<Rightarrow> v))"
    by (simp add: extract_json_def)
  have none_iff: "json_match txt = None \<longleftrightarrow>
            \<not> (\<exists>pre rest post. txt = pre @ CHR ''{'' # rest @ CHR ''}'' # post)"
  proof
    assume n: "json_match txt = None"
    show "\<not> (\<exists>pre rest post. txt = pre @ CHR ''{'' # rest @ CHR ''}'' # post)"
      using json_match_found n by blast
  next
    assume no: "\<not> (\<exists>pre rest post. txt = pre @ CHR ''{'' # rest @ CHR ''}'' # post)"
    show "json_match txt = None"
    proof (rule ccontr)
      assume "json_match txt \<noteq> None"
      then obtain m where "json_match txt = Some m" by auto
      from json_match_Some [OF this] obtain pre mid post where
        "txt = pre @ m @ post" "m = CHR ''{'' # mid @ [CHR ''}'']"
        by blast
      then have "txt = pre @ CHR ''{'' # mid @ CHR ''}'' # post"
        by simp
      with no show False by blast
    qed
  qed
  have some: "\<forall>m. json_match txt = Some m \<longrightarrow>
            (\<exists>pre mid post. txt = pre @ m @ post \<and> m = CHR ''{'' # mid @ [CHR ''}'']
               \<and> CHR ''{'' \<notin> set pre \<and> CHR ''}'' \<notin> set post)"
    using json_match_Some by blast
  have fail: "json_match txt = None \<or> (\<exists>m. json_match txt = Some m \<and> json_parse sv m = None)
            \<longrightarrow> analyzeWithLLM sv d = Inr parse_fallback
              \<and> (\<forall>f. describeImage sv f = Inr d \<longrightarrow>
                    analyzeStoolImage sv f =
                      \<lparr>success = True, error_text = None, isRelevant = JBool False,
                       bristolScore = JNull, sizeEstimation = JNull,
                       healthIndicators = null_indicators,
                       ar_warnings = JArr [JStr ''Unable to parse analysis results''],
                       ar_notes =
                         JStr ''Analysis failed - could not interpret image description''\<rparr>)"
  proof
    assume "json_match txt = None \<or> (\<exists>m. json_match txt = Some m \<and> json_parse sv m = None)"
    then have fb: "analyzeWithLLM sv d = Inr parse_fallback"
      using run extracted by auto
    then show "analyzeWithLLM sv d = Inr parse_fallback
              \<and> (\<forall>f. describeImage sv f = Inr d \<longrightarrow>
                    analyzeStoolImage sv f =
                      \<lparr>success = True, error_text = None, isRelevant = JBool False,
                       bristolScore = JNull, sizeEstimation = JNull,
                       healthIndicators = null_indicators,
                       ar_warnings = JArr [JStr ''Unable to parse analysis results''],
                       ar_notes =
                         JStr ''Analysis failed - could not interpret image description''\<rparr>)"
      by (simp add: analyzeStoolImage_def parse_fallback_irrelevant)
  qed
  from run extracted none_iff some fail show ?thesis
    by (simp only:)
qed

theorem analyzeWithLLM_parse_failure_is_result_witness:
  "json_match ''I think {maybe} it is} fine'' = Some ''{maybe} it is}''
   \<and> json_parse garbled_services ''{maybe} it is}'' = None
   \<and> analyzeWithLLM garbled_services (JStr ''a photo'') = Inr parse_fallback"
proof -
  have answer: "llm garbled_services (JStr ''a photo'')
      = Ok_json (JArr [JObj [(''generated_text'', JStr ''I think {maybe} it is} fine'')]])"
    by (simp add: garbled_services_def)
  have reply: "generated_text (JArr [JObj [(''generated_text'',
                   JStr ''I think {maybe} it is} fine'')]])
      = Inr (JStr ''I think {maybe} it is} fine'')"
    by (simp add: generated_text_def opt_prop_def js_or_def)
  have unparsable: "json_parse garbled_services ''{maybe} it is}'' = None"
    by (simp add: garbled_services_def demo_services_def)
  from analyzeWithLLM_parse_failure_is_result [OF answer reply] garbled_match unparsable
  have "analyzeWithLLM garbled_services (JStr ''a photo'') = Inr parse_fallback"
    by blast
  with garbled_match unparsable show ?thesis
    by blast
qed

section \<open>Properties of the analysis loop\<close>

lemma set_column_identity:
  "row_id (set_column r kv) = row_id r \<and> user_id (set_column r kv) = user_id r
   \<and> storage_path (set_column r kv) = storage_path r \<and> image_url (set_column r kv) = image_url r
   \<and> display_order (set_column r kv) = display_order r
   \<and> created_at (set_column r kv) = created_at r"
  by (simp add: set_column_def Let_def)

lemma apply_patch_identity:
  "row_id (apply_patch p r) = row_id r \<and> user_id (apply_patch p r) = user_id r
   \<and> storage_path (apply_patch p r) = storage_path r \<and> image_url (apply_patch p r) = image_url r
   \<and> display_order (apply_patch p r) = display_order r
   \<and> created_at (apply_patch p r) = created_at r"
  unfolding apply_patch_def
proof (induction p arbitrary: r)
  case Nil
  then show ?case by simp
next
  case (Cons kv p)
  show ?case
    using Cons.IH [of "set_column r kv"] set_column_identity [of r kv] by simp
qed

lemma set_column_known:
  "set_column r (''bristol_score'', v) = (if v = JUndefined then r else r\<lparr>bristol_score := v\<rparr>)"
  "set_column r (''size_score'', v) = (if v = JUndefined then r else r\<lparr>size_score := v\<rparr>)"
  "set_column r (''health_indicators'', v) =
     (if v = JUndefined then r else r\<lparr>health_indicators := v\<rparr>)"
  "set_column r (''analysis_notes'', v) =
     (if v = JUndefined then r else r\<lparr>analysis_notes := v\<rparr>)"
  "set_column r (''warnings'', v) = (if v = JUndefined then r else r\<lparr>warnings := v\<rparr>)"
  "set_column r (''is_analyzed'', JBool True) = r\<lparr>is_analyzed := True\<rparr>"
  by (simp_all add: set_column_def)

lemma apply_analyzed_patch: "apply_patch analyzed_patch r = r\<lparr>is_analyzed := True\<rparr>"
  by (simp add: apply_patch_def analyzed_patch_def set_column_known)

lemma apply_analysis_patch:
  "apply_patch (analysis_patch a) r =
     r\<lparr>bristol_score := (if bristolScore a = JUndefined then bristol_score r else bristolScore a),
       size_score := (if sizeEstimation a = JUndefined then size_score r else sizeEstimation a),
       health_indicators :=
         (if healthIndicators a = JUndefined then health_indicators r else healthIndicators a),
       analysis_notes := (if ar_notes a = JUndefined then analysis_notes r else ar_notes a),
       warnings := (if ar_warnings a = JUndefined then warnings r else ar_warnings a),
       is_analyzed := True\<rparr>"
  by (simp add: apply_patch_def analysis_patch_def set_column_known)

lemma sent_patch_marks: "is_analyzed (apply_patch (sent_patch a) r)"
  by (simp add: sent_patch_def apply_analyzed_patch apply_analysis_patch)

lemma row_kept_refl: "row_kept r r"
  by (simp add: row_kept_def)

lemma row_kept_trans: "row_kept r s \<Longrightarrow> row_kept s t \<Longrightarrow> row_kept r t"
  by (simp add: row_kept_def)

lemma row_kept_sent_patch: "row_kept r (apply_patch (sent_patch a) r)"
  using apply_patch_identity [of "sent_patch a" r] sent_patch_marks [of a r]
  by (simp add: row_kept_def)

lemma db_update_effect:
  "db_update be i p w =
     (update_error be i p,
      w\<lparr>events := events w @ [Db_update i p],
        user_images :=
          (case update_error be i p of
             None \<Rightarrow> map (\<lambda>r. if row_id r = i then apply_patch p r else r) (user_images w)
           | Some e \<Rightarrow> user_images w)\<rparr>)"
  by (cases "update_error be i p") (simp_all add: db_update_def emit_def Let_def)

lemma failed_result_irrelevant:
  "\<not> success (analyzeStoolImage sv f) \<Longrightarrow> isRelevant (analyzeStoolImage sv f) = JBool False"
  by (auto simp: analyzeStoolImage_def failed_result_def validated_result_def Let_def
      split: sum.splits)

lemma analyze_one_unfetched:
  "fetch_image be (image_url imageData) = None \<Longrightarrow>
   analyze_one be imageData w = (True, w\<lparr>events := events w @ [Fetch (image_url imageData)]\<rparr>)"
  by (simp add: analyze_one_def emit_def)

lemma analyze_one_fetched:
  assumes "fetch_image be (image_url imageData) = Some b"
  shows "analyze_one be imageData w =
    (False,
     w\<lparr>events := events w @
          [Fetch (image_url imageData),
           Db_update (row_id imageData)
             (sent_patch (analyzeStoolImage (inference be) (sample_of be w b)))] @
          body_notes (row_id imageData) (analyzeStoolImage (inference be) (sample_of be w b))
            (update_error be (row_id imageData)
               (sent_patch (analyzeStoolImage (inference be) (sample_of be w b)))),
       user_images :=
         (case update_error be (row_id imageData)
                 (sent_patch (analyzeStoolImage (inference be) (sample_of be w b))) of
            None \<Rightarrow>
              map (\<lambda>r. if row_id r = row_id imageData
                       then apply_patch
                              (sent_patch (analyzeStoolImage (inference be) (sample_of be w b))) r
                       else r) (user_images w)
          | Some e \<Rightarrow> user_images w)\<rparr>)"
proof -
  let ?a = "analyzeStoolImage (inference be) (sample_of be w b)"
  show ?thesis
  proof (cases "success ?a \<and> truthy (isRelevant ?a)")
    case True
    then show ?thesis
      using assms
      by (cases "update_error be (row_id imageData) (analysis_patch ?a)")
        (simp_all add: analyze_one_def Let_def db_update_effect sent_patch_def body_notes_def
          emit_def)
  next
    case False
    then show ?thesis
      using assms
      by (cases "update_error be (row_id imageData) analyzed_patch")
        (auto simp: analyze_one_def Let_def db_update_effect sent_patch_def body_notes_def
          emit_def)
  qed
qed

lemma relevant_json_match: "json_match relevant_reply = Some relevant_json"
  by (simp add: json_match_def relevant_reply_def relevant_json_def dq_def)

lemma row_kept_patched:
  "list_all2 row_kept rs (map (\<lambda>r. if row_id r = i then apply_patch (sent_patch a) r else r) rs)"
  by (simp add: list.rel_map list_all2_same row_kept_refl row_kept_sent_patch)

lemma row_kept_list_refl: "list_all2 row_kept rs rs"
  by (simp add: list_all2_same row_kept_refl)

lemma row_kept_list_trans:
  "list_all2 row_kept xs ys \<Longrightarrow> list_all2 row_kept ys zs \<Longrightarrow> list_all2 row_kept xs zs"
  by (rule list_all2_trans [of row_kept row_kept row_kept]) (auto intro: row_kept_trans)

lemma row_kept_marked:
  assumes "list_all2 row_kept xs ys"
    and "\<forall>r \<in> set xs. row_id r = i \<longrightarrow> is_analyzed r"
  shows "\<forall>r \<in> set ys. row_id r = i \<longrightarrow> is_analyzed r"
proof (intro ballI impI)
  fix r'
  assume "r' \<in> set ys" and i: "row_id r' = i"
  then obtain k where k: "k < length ys" "ys ! k = r'"
    by (auto simp: in_set_conv_nth)
  with assms(1) have len: "k < length xs" and kept: "row_kept (xs ! k) r'"
    by (auto simp: list_all2_conv_all_nth)
  then have "row_id (xs ! k) = i" "xs ! k \<in> set xs"
    using i by (auto simp: row_kept_def)
  with assms(2) have "is_analyzed (xs ! k)"
    by blast
  with kept show "is_analyzed r'"
    by (simp add: row_kept_def)
qed

lemma analyze_one_frame:
  "objects (snd (analyze_one be d w)) = objects w
   \<and> ticks (snd (analyze_one be d w)) = ticks w
   \<and> list_all2 row_kept (user_images w) (user_images (snd (analyze_one be d w)))
   \<and> (\<exists>new. events (snd (analyze_one be d w)) = events w @ new)"
proof (cases "fetch_image be (image_url d)")
  case None
  then show ?thesis
    by (simp add: analyze_one_unfetched row_kept_list_refl)
next
  case (Some b)
  show ?thesis
    by (cases "update_error be (row_id d)
                 (sent_patch (analyzeStoolImage (inference be) (sample_of be w b)))")
      (simp_all add: analyze_one_fetched [OF Some] row_kept_list_refl row_kept_patched)
qed

lemma analyze_images_frame:
  "objects (snd (analyze_images be ds w)) = objects w
   \<and> ticks (snd (analyze_images be ds w)) = ticks w
   \<and> list_all2 row_kept (user_images w) (user_images (snd (analyze_images be ds w)))
   \<and> (\<exists>new. events (snd (analyze_images be ds w)) = events w @ new)"
proof (induction ds arbitrary: w)
  case Nil
  then show ?case by (simp add: row_kept_list_refl)
next
  case (Cons d ds)
  obtain t w1 where one: "analyze_one be d w = (t, w1)"
    by (cases "analyze_one be d w")
  from analyze_one_frame [of be d w] one
  have f1: "objects w1 = objects w" "ticks w1 = ticks w"
    "list_all2 row_kept (user_images w) (user_images w1)"
    and e1: "\<exists>new. events w1 = events w @ new"
    by simp_all
  show ?case
  proof (cases t)
    case True
    with one f1 e1 show ?thesis by simp
  next
    case False
    from Cons.IH [of w1] f1 e1 one False show ?thesis
      by (auto intro: row_kept_list_trans)
  qed
qed

lemma analyze_images_append:
  "analyze_images be (xs @ ys) w =
     (case analyze_images be xs w of
        (True, w') \<Rightarrow> (True, w')
      | (False, w') \<Rightarrow> analyze_images be ys w')"
  by (induction xs arbitrary: w) (auto split: prod.splits bool.splits)

lemma analyze_images_fetchable:
  "\<forall>r \<in> set ds. fetch_image be (image_url r) \<noteq> None \<Longrightarrow> fst (analyze_images be ds w) = False"
proof (induction ds arbitrary: w)
  case Nil
  then show ?case by simp
next
  case (Cons d ds)
  then obtain b where "fetch_image be (image_url d) = Some b"
    by auto
  from analyze_one_fetched [OF this, of w] Cons show ?case
    by simp
qed

lemma analyze_images_Cons_if:
  "analyze_images be (d # ds) w =
     (if fst (analyze_one be d w) then (True, snd (analyze_one be d w))
      else analyze_images be ds (snd (analyze_one be d w)))"
  by (cases "analyze_one be d w") (auto split: bool.splits)

lemma analyze_images_append_if:
  "analyze_images be (xs @ ys) w =
     (if fst (analyze_images be xs w) then (True, snd (analyze_images be xs w))
      else analyze_images be ys (snd (analyze_images be xs w)))"
  by (cases "analyze_images be xs w") (auto simp: analyze_images_append split: bool.splits)

subsection \<open>The loop at the concrete backends\<close>

lemma relevant_reply_nonempty: "relevant_reply \<noteq> []"
  by (simp add: relevant_reply_def)

lemma relevant_reply_text:
  "generated_text (JArr [JObj [(''generated_text'', JStr relevant_reply)]])
     = Inr (JStr relevant_reply)"
  by (simp add: generated_text_def opt_prop_def js_or_def relevant_reply_nonempty)

lemma relevant_llm:
  "analyzeWithLLM relevant_services d
     = Inr (JObj [(''isRelevant'', JBool True), (''bristolScore'', JNum 4)])"
  by (simp add: analyzeWithLLM_def relevant_services_def relevant_reply_text extract_json_def
      relevant_json_match)

lemma relevant_validated:
  "validated_result (JObj [(''isRelevant'', JBool True), (''bristolScore'', JNum 4)])
     = Inr four_result"
  by (simp add: validated_result_def opt_prop_def js_or_def nullish_def null_indicators_def
      four_result_def Let_def)

lemma relevant_caption:
  "content f \<noteq> [1] \<Longrightarrow> describeImage relevant_services f = Inr (JStr ''a photo'')"
  by (simp add: describeImage_def relevant_services_def generated_text_def opt_prop_def
      js_or_def)

lemma relevant_analysis:
  "content f \<noteq> [1] \<Longrightarrow> analyzeStoolImage relevant_services f = four_result"
  by (simp add: analyzeStoolImage_def relevant_caption relevant_llm relevant_validated)

lemma unavailable_analysis:
  "content f = [1] \<Longrightarrow>
   analyzeStoolImage relevant_services f =
     failed_result ''Failed to analyze image'' ''Image analysis failed - please try again''"
  by (simp add: analyzeStoolImage_def describeImage_def relevant_services_def)

lemma four_patch:
  "sent_patch four_result =
     [(''bristol_score'', JNum 4), (''size_score'', JUndefined),
      (''health_indicators'', null_indicators), (''analysis_notes'', JNull),
      (''warnings'', JArr []), (''is_analyzed'', JBool True)]"
  by (simp add: sent_patch_def four_result_def analysis_patch_def)

lemma failed_patch: "sent_patch (failed_result e m) = [(''is_analyzed'', JBool True)]"
  by (simp add: sent_patch_def failed_result_def analyzed_patch_def)

lemma handleUpload_after_upload:
  assumes "selectedFiles st \<noteq> []" and "c < 60"
    and "c + int (length (selectedFiles st)) \<le> 60"
    and "upload_files be u (length (selectedFiles st)) (selectedFiles st) w [] 0
           (st\<lparr>uploading := True, uploadProgress := 0\<rparr>) = (Inr (imgs, n), w1, st1)"
    and "analyze_images be imgs
           (w1\<lparr>events := events w1 @
                [Toast_success (''Successfully uploaded '' @ string_of_nat n @ '' image(s)''),
                 Toast_loading ''Analyzing your sample...'']\<rparr>) = (thrown, w2)"
  shows "snd (handleUpload be (Some u) c True (st, w)) =
           w2\<lparr>events := events w2 @
                (if thrown
                 then [Console_error ''Analysis error:'',
                       Toast_error ''Failed to analyze images - you can try again later'']
                 else []) @ [Refetch]\<rparr>"
  using assms by (cases thrown) (simp_all add: handleUpload_def Let_def emit_def)

lemma relevant_phase:
  "analyze_images relevant_backend [first_row, second_row] uploaded_world =
     (False,
      uploaded_world
        \<lparr>user_images :=
           [first_row\<lparr>is_analyzed := True\<rparr>,
            second_row\<lparr>bristol_score := JNum 4, health_indicators := null_indicators,
                        warnings := JArr [], is_analyzed := True\<rparr>],
         events :=
           [Fetch ''https://cdn/u1/1700000000000_a.png'',
            Db_update 1 [(''is_analyzed'', JBool True)],
            Toast_error ''Image does not appear to be a valid sample'',
            Fetch ''https://cdn/u1/1700000000001_b.png'',
            Db_update 2 [(''bristol_score'', JNum 4), (''size_score'', JUndefined),
                         (''health_indicators'', null_indicators), (''analysis_notes'', JNull),
                         (''warnings'', JArr []), (''is_analyzed'', JBool True)],
            Toast_success ''Analysis complete!'']\<rparr>)"
proof -
  let ?be = relevant_backend
  have inf: "inference ?be = relevant_services"
    by (simp add: relevant_backend_def)
  have fa: "fetch_image ?be (image_url first_row) = Some ([1], ''image/png'')"
    by (simp add: relevant_backend_def first_row_def)
  have fb: "fetch_image ?be (image_url second_row) = Some ([2], ''image/png'')"
    by (simp add: relevant_backend_def second_row_def)
  have ra: "analyzeStoolImage (inference ?be) (sample_of ?be w ([1], ''image/png''))
      = failed_result ''Failed to analyze image'' ''Image analysis failed - please try again''"
    for w
    unfolding inf by (rule unavailable_analysis) (simp add: sample_of_def)
  have rb: "analyzeStoolImage (inference ?be) (sample_of ?be w ([2], ''image/png'')) = four_result"
    for w
    unfolding inf by (rule relevant_analysis) (simp add: sample_of_def)
  have ok: "update_error ?be i p = None" for i p
    by (simp add: relevant_backend_def demo_backend_def)
  have one_a: "analyze_one ?be first_row w =
      (False, w\<lparr>events := events w @
          [Fetch ''https://cdn/u1/1700000000000_a.png'',
           Db_update 1 [(''is_analyzed'', JBool True)],
           Toast_error ''Image does not appear to be a valid sample''],
        user_images := map (\<lambda>r. if row_id r = 1 then r\<lparr>is_analyzed := True\<rparr> else r)
                         (user_images w)\<rparr>)" for w
    unfolding analyze_one_fetched [OF fa] ra ok failed_patch
    by (simp add: body_notes_def failed_result_def first_row_def
        apply_analyzed_patch [unfolded analyzed_patch_def])
  have one_b: "analyze_one ?be second_row w =
      (False, w\<lparr>events := events w @
          [Fetch ''https://cdn/u1/1700000000001_b.png'',
           Db_update 2 (sent_patch four_result), Toast_success ''Analysis complete!''],
        user_images := map (\<lambda>r. if row_id r = 2 then apply_patch (sent_patch four_result) r
                                 else r) (user_images w)\<rparr>)" for w
    unfolding analyze_one_fetched [OF fb] rb ok
    by (simp add: body_notes_def four_result_def second_row_def)
  have patched: "apply_patch (sent_patch four_result) second_row =
      second_row\<lparr>bristol_score := JNum 4, health_indicators := null_indicators,
                        warnings := JArr [], is_analyzed := True\<rparr>"
    by (simp add: sent_patch_def four_result_def apply_analysis_patch second_row_def
        null_indicators_def)
  have ids: "row_id first_row = 1" "row_id second_row = 2"
    by (simp_all add: first_row_def second_row_def)
  show ?thesis
    by (simp add: one_a one_b uploaded_world_def four_patch patched [unfolded four_patch] ids)
qed

lemma relevant_fetch_second:
  "fetch_image relevant_backend (image_url second_row) = Some ([2], ''image/png'')"
  by (simp add: relevant_backend_def second_row_def)

lemma relevant_fetch_first:
  "fetch_image relevant_backend (image_url first_row) = Some ([1], ''image/png'')"
  by (simp add: relevant_backend_def first_row_def)

lemma relevant_second_result:
  "analyzeStoolImage (inference relevant_backend)
     (sample_of relevant_backend w ([2], ''image/png'')) = four_result"
proof -
  have "inference relevant_backend = relevant_services"
    by (simp add: relevant_backend_def)
  then show ?thesis
    using relevant_analysis [of "sample_of relevant_backend w ([2], ''image/png'')"]
    by (simp add: sample_of_def)
qed

lemma relevant_first_result:
  "analyzeStoolImage (inference relevant_backend)
     (sample_of relevant_backend w ([1], ''image/png''))
   = failed_result ''Failed to analyze image'' ''Image analysis failed - please try again''"
proof -
  have "inference relevant_backend = relevant_services"
    by (simp add: relevant_backend_def)
  then show ?thesis
    using unavailable_analysis [of "sample_of relevant_backend w ([1], ''image/png'')"]
    by (simp add: sample_of_def)
qed

text \<open>
  \<^bold>\<open>C4\<close> as stated fails: the code has a fourth outcome. When the analysis is a relevant
  success and the table refuses the update, the body logs the error, shows
  \<open>Analysis saved but failed to update record\<close> and goes on; the record keeps
  \<open>is_analyzed = false\<close>.
\<close>

theorem refused_update_leaves_record_unanalyzed:
  "map is_analyzed (user_images (snd (handleUpload refusing_backend (Some demo_user) 0 True
      (demo_state [demo_file ''a.png''], empty_world)))) = [False]
   \<and> events (snd (handleUpload refusing_backend (Some demo_user) 0 True
      (demo_state [demo_file ''a.png''], empty_world)))
     = [Storage_upload ''u1/1700000000000_a.png'', Db_insert ''u1/1700000000000_a.png'',
        Toast_success ''Successfully uploaded 1 image(s)'',
        Toast_loading ''Analyzing your sample...'',
        Fetch ''https://cdn/u1/1700000000000_a.png'',
        Db_update 1 [(''bristol_score'', JNum 4), (''size_score'', JUndefined),
                     (''health_indicators'', null_indicators), (''analysis_notes'', JNull),
                     (''warnings'', JArr []), (''is_analyzed'', JBool True)],
        Console_error ''Failed to update analysis:'',
        Toast_error ''Analysis saved but failed to update record for image 1'', Refetch]"
proof -
  let ?be = refusing_backend
  let ?st = "demo_state [demo_file ''a.png'']"
  let ?w1 = "\<lparr>objects = [''u1/1700000000000_a.png'' \<mapsto> demo_file ''a.png''],
           user_images = [first_row], ticks = 1,
           events = [Storage_upload ''u1/1700000000000_a.png'',
                     Db_insert ''u1/1700000000000_a.png'']\<rparr>"
  have sel: "selectedFiles ?st = [demo_file ''a.png'']"
    by (simp add: demo_state_def)
  have inf: "inference ?be = relevant_services"
    by (simp add: refusing_backend_def relevant_backend_def)
  have loop: "upload_files ?be demo_user (length (selectedFiles ?st)) (selectedFiles ?st)
                empty_world [] 0 (?st\<lparr>uploading := True, uploadProgress := 0\<rparr>)
      = (Inr ([first_row], Suc 0), ?w1, ?st\<lparr>uploading := True, uploadProgress := 100\<rparr>)"
    unfolding sel
    by (simp add: refusing_backend_def relevant_backend_def demo_backend_def empty_world_def
        storage_upload_def db_insert_def new_row_def fresh_id_def emit_def Let_def first_row_def
        demo_state_def, simp add: demo_user_def demo_file_def)
  have fetched: "fetch_image ?be (image_url first_row) = Some ([2], ''image/png'')"
    by (simp add: refusing_backend_def relevant_backend_def)
  have res: "analyzeStoolImage (inference ?be) (sample_of ?be w ([2], ''image/png'')) = four_result"
    for w
    unfolding inf by (rule relevant_analysis) (simp add: sample_of_def)
  have refused: "update_error ?be i p = Some ''permission denied''" for i p
    by (simp add: refusing_backend_def)
  have one: "analyze_one ?be first_row w =
      (False, w\<lparr>events := events w @
         [Fetch ''https://cdn/u1/1700000000000_a.png'',
          Db_update 1 (sent_patch four_result),
          Console_error ''Failed to update analysis:'',
          Toast_error ''Analysis saved but failed to update record for image 1'']\<rparr>)" for w
    unfolding analyze_one_fetched [OF fetched] res refused
    by (simp add: body_notes_def four_result_def first_row_def)
  have phase: "analyze_images ?be [first_row]
           (?w1\<lparr>events := events ?w1 @
                [Toast_success (''Successfully uploaded '' @ string_of_nat (Suc 0) @ '' image(s)''),
                 Toast_loading ''Analyzing your sample...'']\<rparr>)
      = (False, ?w1\<lparr>events :=
           [Storage_upload ''u1/1700000000000_a.png'', Db_insert ''u1/1700000000000_a.png'',
            Toast_success ''Successfully uploaded 1 image(s)'',
            Toast_loading ''Analyzing your sample...'',
            Fetch ''https://cdn/u1/1700000000000_a.png'',
            Db_update 1 (sent_patch four_result),
            Console_error ''Failed to update analysis:'',
            Toast_error ''Analysis saved but failed to update record for image 1'']\<rparr>)"
    by (simp add: one)
  have ne: "selectedFiles ?st \<noteq> []" and q1: "(0::int) < 60"
    and q2: "0 + int (length (selectedFiles ?st)) \<le> 60"
    by (simp_all add: sel)
  note final = handleUpload_after_upload [OF ne q1 q2 loop phase]
  show ?thesis
    unfolding final by (simp add: four_patch first_row_def)
qed

text \<open>
  \<^bold>\<open>C4\<close>, amended. For a record of a fully uploaded batch whose image the loop has
  fetched, the body sends exactly one update and shows one notification, in one of three
  ways: (a) relevant success: the update carries every classification field and
  \<open>is_analyzed = true\<close>; (b) irrelevant success and (c) failure: the update carries only
  \<open>is_analyzed = true\<close>, the classification columns stay as they are, and an error toast
  is shown (a failed analysis is never relevant, so both show the same toast). When the
  table accepts the update the record ends with \<open>is_analyzed = true\<close>; when it refuses,
  the table is unchanged, and in (a) the refusal is reported. The bucket is not touched.
\<close>

theorem analyze_one_three_outcomes:
  fixes be :: backend and imageData :: image_row and w :: world and b :: "blob \<times> string"
  defines "a \<equiv> analyzeStoolImage (inference be) (sample_of be w b)"
  defines "i \<equiv> row_id imageData"
  defines "w' \<equiv> snd (analyze_one be imageData w)"
  assumes fetched: "fetch_image be (image_url imageData) = Some b"
  shows "fst (analyze_one be imageData w) = False
       \<and> events w' = events w @ [Fetch (image_url imageData), Db_update i (sent_patch a)] @
                       body_notes i a (update_error be i (sent_patch a))
       \<and> objects w' = objects w
       \<and> (success a \<and> truthy (isRelevant a) \<longrightarrow>
            sent_patch a = analysis_patch a
            \<and> body_notes i a None = [Toast_success ''Analysis complete!'']
            \<and> (\<forall>e. body_notes i a (Some e) =
                  [Console_error ''Failed to update analysis:'',
                   Toast_error (''Analysis saved but failed to update record for image '' @
                                string_of_nat i)]))
       \<and> (success a \<and> \<not> truthy (isRelevant a) \<longrightarrow>
            sent_patch a = [(''is_analyzed'', JBool True)]
            \<and> (\<forall>ue. body_notes i a ue =
                  [Toast_error ''Image does not appear to be a valid sample'']))
       \<and> (\<not> success a \<longrightarrow>
            sent_patch a = [(''is_analyzed'', JBool True)]
            \<and> (\<forall>ue. body_notes i a ue =
                  [Toast_error ''Image does not appear to be a valid sample'']))
       \<and> (update_error be i (sent_patch a) = None \<longrightarrow>
            user_images w' =
              map (\<lambda>r. if row_id r = i then apply_patch (sent_patch a) r else r) (user_images w)
            \<and> (\<forall>r \<in> set (user_images w'). row_id r = i \<longrightarrow> is_analyzed r))
       \<and> (\<forall>e. update_error be i (sent_patch a) = Some e \<longrightarrow> user_images w' = user_images w)
       \<and> (\<forall>r. apply_patch [(''is_analyzed'', JBool True)] r = r\<lparr>is_analyzed := True\<rparr>)
       \<and> (\<forall>r. apply_patch (analysis_patch a) r =
              r\<lparr>bristol_score :=
                   (if bristolScore a = JUndefined then bristol_score r else bristolScore a),
                size_score :=
                   (if sizeEstimation a = JUndefined then size_score r else sizeEstimation a),
                health_indicators :=
                   (if healthIndicators a = JUndefined then health_indicators r
                    else healthIndicators a),
                analysis_notes :=
                   (if ar_notes a = JUndefined then analysis_notes r else ar_notes a),
                warnings := (if ar_warnings a = JUndefined then warnings r else ar_warnings a),
                is_analyzed := True\<rparr>)"
proof -
  note run = analyze_one_fetched [OF fetched, of w, folded a_def, folded i_def]
  have c1: "fst (analyze_one be imageData w) = False"
    by (simp add: run)
  have c2: "events w' = events w @ [Fetch (image_url imageData), Db_update i (sent_patch a)] @
                       body_notes i a (update_error be i (sent_patch a))"
    by (simp add: w'_def run)
  have c3: "objects w' = objects w"
    by (simp add: w'_def run)
  have ca: "success a \<and> truthy (isRelevant a) \<longrightarrow>
            sent_patch a = analysis_patch a
            \<and> body_notes i a None = [Toast_success ''Analysis complete!'']
            \<and> (\<forall>e. body_notes i a (Some e) =
                  [Console_error ''Failed to update analysis:'',
                   Toast_error (''Analysis saved but failed to update record for image '' @
                                string_of_nat i)])"
    by (simp add: sent_patch_def body_notes_def)
  have cb: "success a \<and> \<not> truthy (isRelevant a) \<longrightarrow>
            sent_patch a = [(''is_analyzed'', JBool True)]
            \<and> (\<forall>ue. body_notes i a ue =
                  [Toast_error ''Image does not appear to be a valid sample''])"
    by (simp add: sent_patch_def body_notes_def analyzed_patch_def)
  have cc: "\<not> success a \<longrightarrow>
            sent_patch a = [(''is_analyzed'', JBool True)]
            \<and> (\<forall>ue. body_notes i a ue =
                  [Toast_error ''Image does not appear to be a valid sample''])"
  proof
    assume f: "\<not> success a"
    then have "isRelevant a = JBool False"
      unfolding a_def by (rule failed_result_irrelevant)
    with f show "sent_patch a = [(''is_analyzed'', JBool True)]
            \<and> (\<forall>ue. body_notes i a ue =
                  [Toast_error ''Image does not appear to be a valid sample''])"
      by (simp add: sent_patch_def body_notes_def analyzed_patch_def)
  qed
  have c4: "update_error be i (sent_patch a) = None \<longrightarrow>
            user_images w' =
              map (\<lambda>r. if row_id r = i then apply_patch (sent_patch a) r else r) (user_images w)
            \<and> (\<forall>r \<in> set (user_images w'). row_id r = i \<longrightarrow> is_analyzed r)"
  proof
    assume ok: "update_error be i (sent_patch a) = None"
    then have rows: "user_images w' =
              map (\<lambda>r. if row_id r = i then apply_patch (sent_patch a) r else r) (user_images w)"
      by (simp add: w'_def run)
    have "\<forall>r \<in> set (user_images w'). row_id r = i \<longrightarrow> is_analyzed r"
      unfolding rows using sent_patch_marks by auto
    with rows show "user_images w' =
              map (\<lambda>r. if row_id r = i then apply_patch (sent_patch a) r else r) (user_images w)
            \<and> (\<forall>r \<in> set (user_images w'). row_id r = i \<longrightarrow> is_analyzed r)"
      by blast
  qed
  have c5: "\<forall>e. update_error be i (sent_patch a) = Some e \<longrightarrow> user_images w' = user_images w"
    by (simp add: w'_def run)
  have c6: "\<forall>r. apply_patch [(''is_analyzed'', JBool True)] r = r\<lparr>is_analyzed := True\<rparr>"
    using apply_analyzed_patch by (simp add: analyzed_patch_def)
  have c7: "\<forall>r. apply_patch (analysis_patch a) r =
              r\<lparr>bristol_score :=
                   (if bristolScore a = JUndefined then bristol_score r else bristolScore a),
                size_score :=
                   (if sizeEstimation a = JUndefined then size_score r else sizeEstimation a),
                health_indicators :=
                   (if healthIndicators a = JUndefined then health_indicators r
                    else healthIndicators a),
                analysis_notes :=
                   (if ar_notes a = JUndefined then analysis_notes r else ar_notes a),
                warnings := (if ar_warnings a = JUndefined then warnings r else ar_warnings a),
                is_analyzed := True\<rparr>"
    by (simp add: apply_analysis_patch)
  from c1 c2 c3 ca cb cc c4 c5 c6 c7 show ?thesis
    by (intro conjI)
qed

theorem analyze_one_three_outcomes_witness:
  "fetch_image relevant_backend (image_url second_row) = Some ([2], ''image/png'')
   \<and> fst (analyze_one relevant_backend second_row uploaded_world) = False
   \<and> events (snd (analyze_one relevant_backend second_row uploaded_world))
     = [Fetch ''https://cdn/u1/1700000000001_b.png'',
        Db_update 2 [(''bristol_score'', JNum 4), (''size_score'', JUndefined),
                     (''health_indicators'', null_indicators), (''analysis_notes'', JNull),
                     (''warnings'', JArr []), (''is_analyzed'', JBool True)],
        Toast_success ''Analysis complete!'']
   \<and> user_images (snd (analyze_one relevant_backend second_row uploaded_world))
     = [first_row,
        second_row\<lparr>bristol_score := JNum 4, health_indicators := null_indicators,
                    warnings := JArr [], is_analyzed := True\<rparr>]
   \<and> objects (snd (analyze_one relevant_backend second_row uploaded_world))
     = objects uploaded_world
   \<and> fetch_image relevant_backend (image_url first_row) = Some ([1], ''image/png'')
   \<and> success (analyzeStoolImage (inference relevant_backend)
                (sample_of relevant_backend uploaded_world ([1], ''image/png''))) = False
   \<and> events (snd (analyze_one relevant_backend first_row uploaded_world))
     = [Fetch ''https://cdn/u1/1700000000000_a.png'',
        Db_update 1 [(''is_analyzed'', JBool True)],
        Toast_error ''Image does not appear to be a valid sample'']
   \<and> user_images (snd (analyze_one relevant_backend first_row uploaded_world))
     = [first_row\<lparr>is_analyzed := True\<rparr>, second_row]"
proof -
  let ?be = relevant_backend
  let ?wb = "snd (analyze_one ?be second_row uploaded_world)"
  let ?wa = "snd (analyze_one ?be first_row uploaded_world)"
  let ?fa = "failed_result ''Failed to analyze image'' ''Image analysis failed - please try again''"
  note b = analyze_one_three_outcomes [OF relevant_fetch_second, of uploaded_world,
      unfolded relevant_second_result]
  note a = analyze_one_three_outcomes [OF relevant_fetch_first, of uploaded_world,
      unfolded relevant_first_result]
  have ok: "update_error ?be i p = None" for i p
    by (simp add: relevant_backend_def demo_backend_def)
  have ids: "row_id first_row = 1" "row_id second_row = 2"
    by (simp_all add: first_row_def second_row_def)
  have urls: "image_url first_row = ''https://cdn/u1/1700000000000_a.png''"
    "image_url second_row = ''https://cdn/u1/1700000000001_b.png''"
    by (simp_all add: first_row_def second_row_def)
  have rows: "user_images uploaded_world = [first_row, second_row]"
    and evs: "events uploaded_world = []"
    by (simp_all add: uploaded_world_def)
  have patched: "apply_patch (sent_patch four_result) second_row =
      second_row\<lparr>bristol_score := JNum 4, health_indicators := null_indicators,
                        warnings := JArr [], is_analyzed := True\<rparr>"
    by (simp add: sent_patch_def four_result_def apply_analysis_patch second_row_def
        null_indicators_def)
  have b1: "fst (analyze_one ?be second_row uploaded_world) = False"
    using b by (rule conjunct1)
  from b [THEN conjunct2, THEN conjunct1] have b2: "events ?wb
     = [Fetch ''https://cdn/u1/1700000000001_b.png'',
        Db_update 2 [(''bristol_score'', JNum 4), (''size_score'', JUndefined),
                     (''health_indicators'', null_indicators), (''analysis_notes'', JNull),
                     (''warnings'', JArr []), (''is_analyzed'', JBool True)],
        Toast_success ''Analysis complete!'']"
    unfolding ok four_patch ids urls evs
    by (simp add: body_notes_def four_result_def)
  note b7 = b [THEN conjunct2, THEN conjunct2, THEN conjunct2, THEN conjunct2,
      THEN conjunct2, THEN conjunct2, THEN conjunct1, THEN mp, OF ok, THEN conjunct1]
  from b7 have b3: "user_images ?wb
     = [first_row,
        second_row\<lparr>bristol_score := JNum 4, health_indicators := null_indicators,
                    warnings := JArr [], is_analyzed := True\<rparr>]"
    unfolding rows by (simp add: ids patched)
  have b4: "objects ?wb = objects uploaded_world"
    using b [THEN conjunct2, THEN conjunct2] by (rule conjunct1)
  have a0: "success (analyzeStoolImage (inference ?be)
                (sample_of ?be uploaded_world ([1], ''image/png''))) = False"
    unfolding relevant_first_result by (simp add: failed_result_def)
  from a [THEN conjunct2, THEN conjunct1] have a2: "events ?wa
     = [Fetch ''https://cdn/u1/1700000000000_a.png'',
        Db_update 1 [(''is_analyzed'', JBool True)],
        Toast_error ''Image does not appear to be a valid sample'']"
    unfolding ok failed_patch ids urls evs
    by (simp add: body_notes_def failed_result_def)
  note a7 = a [THEN conjunct2, THEN conjunct2, THEN conjunct2, THEN conjunct2,
      THEN conjunct2, THEN conjunct2, THEN conjunct1, THEN mp, OF ok, THEN conjunct1]
  from a7 have a3: "user_images ?wa = [first_row\<lparr>is_analyzed := True\<rparr>, second_row]"
    unfolding rows failed_patch
    by (simp add: ids apply_analyzed_patch [unfolded analyzed_patch_def])
  from relevant_fetch_second b1 b2 b3 b4 relevant_fetch_first a0 a2 a3 show ?thesis
    by blast
qed

text \<open>
  \<^bold>\<open>C3\<close> as stated fails for one of its three kinds of failure. \<open>fetch\<close> of the image
  is inside the loop but outside \<open>analyzeStoolImage\<close>; when it rejects, the exception
  leaves the loop and is caught by the \<open>catch\<close> around it. With two uploaded files and the
  first image unreachable, the second is never fetched, classified or marked (its image
  could have been fetched). Both uploads stay committed.
\<close>

theorem unfetchable_first_image_ends_analysis:
  "map is_analyzed (user_images (snd (handleUpload unreachable_backend (Some demo_user) 0 True
      (demo_state [demo_file ''a.png'', demo_file ''b.png''], empty_world)))) = [False, False]
   \<and> map storage_path (user_images (snd (handleUpload unreachable_backend (Some demo_user) 0
      True (demo_state [demo_file ''a.png'', demo_file ''b.png''], empty_world))))
     = [''u1/1700000000000_a.png'', ''u1/1700000000001_b.png'']
   \<and> fetch_image unreachable_backend ''https://cdn/u1/1700000000001_b.png''
     = Some ([2], ''image/png'')
   \<and> events (snd (handleUpload unreachable_backend (Some demo_user) 0 True
      (demo_state [demo_file ''a.png'', demo_file ''b.png''], empty_world)))
     = [Storage_upload ''u1/1700000000000_a.png'', Db_insert ''u1/1700000000000_a.png'',
        Storage_upload ''u1/1700000000001_b.png'', Db_insert ''u1/1700000000001_b.png'',
        Toast_success ''Successfully uploaded 2 image(s)'',
        Toast_loading ''Analyzing your sample...'',
        Fetch ''https://cdn/u1/1700000000000_a.png'',
        Console_error ''Analysis error:'',
        Toast_error ''Failed to analyze images - you can try again later'', Refetch]"
proof -
  let ?be = unreachable_backend
  let ?st = "demo_state [demo_file ''a.png'', demo_file ''b.png'']"
  let ?w1 = "uploaded_world\<lparr>events :=
      [Storage_upload ''u1/1700000000000_a.png'', Db_insert ''u1/1700000000000_a.png'',
       Storage_upload ''u1/1700000000001_b.png'', Db_insert ''u1/1700000000001_b.png'']\<rparr>"
  have sel: "selectedFiles ?st = [demo_file ''a.png'', demo_file ''b.png'']"
    by (simp add: demo_state_def)
  have loop: "upload_files ?be demo_user (length (selectedFiles ?st)) (selectedFiles ?st)
                empty_world [] 0 (?st\<lparr>uploading := True, uploadProgress := 0\<rparr>)
      = (Inr ([first_row, second_row], 2), ?w1,
         ?st\<lparr>uploading := True, uploadProgress := 100\<rparr>)"
    unfolding sel
    by (simp add: unreachable_backend_def relevant_backend_def demo_backend_def empty_world_def
        storage_upload_def db_insert_def new_row_def fresh_id_def emit_def Let_def first_row_def
        second_row_def uploaded_world_def demo_state_def,
        simp add: demo_user_def demo_file_def)
  have unfetched: "fetch_image ?be (image_url first_row) = None"
    by (simp add: unreachable_backend_def relevant_backend_def first_row_def)
  have phase: "analyze_images ?be [first_row, second_row]
           (?w1\<lparr>events := events ?w1 @
                [Toast_success (''Successfully uploaded '' @ string_of_nat 2 @ '' image(s)''),
                 Toast_loading ''Analyzing your sample...'']\<rparr>)
      = (True, ?w1\<lparr>events :=
           [Storage_upload ''u1/1700000000000_a.png'', Db_insert ''u1/1700000000000_a.png'',
            Storage_upload ''u1/1700000000001_b.png'', Db_insert ''u1/1700000000001_b.png'',
            Toast_success ''Successfully uploaded 2 image(s)'',
            Toast_loading ''Analyzing your sample...'',
            Fetch ''https://cdn/u1/1700000000000_a.png'']\<rparr>)"
    by (simp add: analyze_one_unfetched [OF unfetched]) (simp add: first_row_def)
  have ne: "selectedFiles ?st \<noteq> []" and q1: "(0::int) < 60"
    and q2: "0 + int (length (selectedFiles ?st)) \<le> 60"
    by (simp_all add: sel)
  note final = handleUpload_after_upload [OF ne q1 q2 loop phase]
  have other: "fetch_image ?be ''https://cdn/u1/1700000000001_b.png'' = Some ([2], ''image/png'')"
    by (simp add: unreachable_backend_def relevant_backend_def)
  show ?thesis
    unfolding final using other
    by (simp add: uploaded_world_def first_row_def second_row_def)
qed

text \<open>
  \<^bold>\<open>C3\<close>, amended. However the analyses of the other records of the batch end (caption
  service error, classification service error, unparsable response: whatever
  \<open>analyzeStoolImage\<close> reports), a record \<open>B\<close> is fetched and classified and the update with
  \<open>is_analyzed = true\<close> for it is sent, provided the images of the records before it and its
  own can be fetched; \<open>B\<close> then ends with \<open>is_analyzed = true\<close> if the table accepts that
  update. No outcome of the analysis loop, a rejected fetch included, rolls back an
  upload: the bucket is unchanged, and every row keeps its identity, owner, storage key
  and URL.
\<close>

theorem analyze_images_isolates_reported_failures:
  fixes be :: backend and pre post :: "image_row list" and B :: image_row and w :: world
  defines "w' \<equiv> snd (analyze_images be (pre @ B # post) w)"
  defines "aB \<equiv> analyzeStoolImage (inference be)
                   (sample_of be w (the (fetch_image be (image_url B))))"
  shows "objects w' = objects w
       \<and> list_all2 row_kept (user_images w) (user_images w')
       \<and> ((\<forall>r \<in> set (pre @ [B]). fetch_image be (image_url r) \<noteq> None) \<longrightarrow>
            (\<exists>before after.
                events w' = events w @ before @
                  [Fetch (image_url B), Db_update (row_id B) (sent_patch aB)] @ after)
            \<and> (update_error be (row_id B) (sent_patch aB) = None \<longrightarrow>
                 (\<forall>r \<in> set (user_images w'). row_id r = row_id B \<longrightarrow> is_analyzed r)))"
proof (intro conjI impI)
  show "objects w' = objects w"
    unfolding w'_def using analyze_images_frame by blast
  show "list_all2 row_kept (user_images w) (user_images w')"
    unfolding w'_def using analyze_images_frame by blast
next
  assume fetchable: "\<forall>r \<in> set (pre @ [B]). fetch_image be (image_url r) \<noteq> None"
  let ?w1 = "snd (analyze_images be pre w)"
  have pre_ok: "fst (analyze_images be pre w) = False"
    using analyze_images_fetchable [of pre be w] fetchable by simp
  obtain b where b: "fetch_image be (image_url B) = Some b"
    using fetchable by auto
  have tick: "sample_of be ?w1 b = sample_of be w b"
    using analyze_images_frame [of be pre w] by (simp add: sample_of_def)
  have aB: "analyzeStoolImage (inference be) (sample_of be ?w1 b) = aB"
    by (simp add: aB_def b tick)
  let ?w2 = "snd (analyze_one be B ?w1)"
  have one: "fst (analyze_one be B ?w1) = False"
    using analyze_one_fetched [OF b, of ?w1] by simp
  have w': "w' = snd (analyze_images be post ?w2)"
    unfolding w'_def
    by (simp only: analyze_images_append_if analyze_images_Cons_if pre_ok one if_False)
  obtain before where before: "events ?w1 = events w @ before"
    using analyze_images_frame [of be pre w] by blast
  have ev2: "events ?w2 = events ?w1 @
      [Fetch (image_url B), Db_update (row_id B) (sent_patch aB)] @
      body_notes (row_id B) aB (update_error be (row_id B) (sent_patch aB))"
    using analyze_one_fetched [OF b, of ?w1] by (simp add: aB)
  obtain rest where rest: "events w' = events ?w2 @ rest"
    unfolding w' using analyze_images_frame [of be post ?w2] by blast
  have "events w' = events w @ before @
      [Fetch (image_url B), Db_update (row_id B) (sent_patch aB)] @
      (body_notes (row_id B) aB (update_error be (row_id B) (sent_patch aB)) @ rest)"
    by (simp add: rest ev2 before)
  then show "\<exists>before after.
                events w' = events w @ before @
                  [Fetch (image_url B), Db_update (row_id B) (sent_patch aB)] @ after"
    by blast
next
  assume fetchable: "\<forall>r \<in> set (pre @ [B]). fetch_image be (image_url r) \<noteq> None"
    and accepted: "update_error be (row_id B) (sent_patch aB) = None"
  let ?w1 = "snd (analyze_images be pre w)"
  have pre_ok: "fst (analyze_images be pre w) = False"
    using analyze_images_fetchable [of pre be w] fetchable by simp
  obtain b where b: "fetch_image be (image_url B) = Some b"
    using fetchable by auto
  have tick: "sample_of be ?w1 b = sample_of be w b"
    using analyze_images_frame [of be pre w] by (simp add: sample_of_def)
  have aB: "analyzeStoolImage (inference be) (sample_of be ?w1 b) = aB"
    by (simp add: aB_def b tick)
  let ?w2 = "snd (analyze_one be B ?w1)"
  have one: "fst (analyze_one be B ?w1) = False"
    using analyze_one_fetched [OF b, of ?w1] by simp
  have w': "w' = snd (analyze_images be post ?w2)"
    unfolding w'_def
    by (simp only: analyze_images_append_if analyze_images_Cons_if pre_ok one if_False)
  have "user_images ?w2 =
      map (\<lambda>r. if row_id r = row_id B then apply_patch (sent_patch aB) r else r)
        (user_images ?w1)"
    using analyze_one_fetched [OF b, of ?w1] accepted by (simp add: aB)
  then have marked: "\<forall>r \<in> set (user_images ?w2). row_id r = row_id B \<longrightarrow> is_analyzed r"
    using sent_patch_marks by auto
  have "list_all2 row_kept (user_images ?w2) (user_images w')"
    unfolding w' using analyze_images_frame by blast
  from row_kept_marked [OF this marked]
  show "\<forall>r \<in> set (user_images w'). row_id r = row_id B \<longrightarrow> is_analyzed r" .
qed

theorem analyze_images_isolates_reported_failures_witness:
  "fetch_image relevant_backend (image_url first_row) = Some ([1], ''image/png'')
   \<and> fetch_image relevant_backend (image_url second_row) = Some ([2], ''image/png'')
   \<and> success (analyzeStoolImage (inference relevant_backend)
                (sample_of relevant_backend uploaded_world ([1], ''image/png''))) = False
   \<and> update_error relevant_backend (row_id second_row) (sent_patch four_result) = None
   \<and> filter (\<lambda>r. row_id r = row_id second_row \<and> \<not> is_analyzed r)
        (user_images (snd (analyze_images relevant_backend ([first_row] @ second_row # [])
           uploaded_world))) = []
   \<and> map is_analyzed (user_images (snd (analyze_images relevant_backend
         ([first_row] @ second_row # []) uploaded_world))) = [True, True]
   \<and> map bristol_score (user_images (snd (analyze_images relevant_backend
         ([first_row] @ second_row # []) uploaded_world))) = [JNull, JNum 4]
   \<and> objects (snd (analyze_images relevant_backend ([first_row] @ second_row # [])
         uploaded_world)) = objects uploaded_world"
proof -
  let ?be = relevant_backend
  let ?w' = "snd (analyze_images ?be ([first_row] @ second_row # []) uploaded_world)"
  have fetchable: "\<forall>r \<in> set ([first_row] @ [second_row]). fetch_image ?be (image_url r) \<noteq> None"
    using relevant_fetch_first relevant_fetch_second by simp
  have accepted: "update_error ?be (row_id second_row) (sent_patch four_result) = None"
    by (simp add: relevant_backend_def demo_backend_def)
  note inst = analyze_images_isolates_reported_failures
    [of ?be "[first_row]" second_row "[]" uploaded_world,
     unfolded relevant_fetch_second option.sel relevant_second_result]
  from inst have frame: "objects ?w' = objects uploaded_world"
    by (rule conjunct1)
  from inst [THEN conjunct2, THEN conjunct2, THEN mp, OF fetchable, THEN conjunct2, THEN mp,
      OF accepted]
  have "\<forall>r \<in> set (user_images ?w'). row_id r = row_id second_row \<longrightarrow> is_analyzed r" .
  then have marked: "filter (\<lambda>r. row_id r = row_id second_row \<and> \<not> is_analyzed r)
        (user_images ?w') = []"
    by (auto simp: filter_empty_conv)
  have failed: "success (analyzeStoolImage (inference ?be)
                (sample_of ?be uploaded_world ([1], ''image/png''))) = False"
    unfolding relevant_first_result by (simp add: failed_result_def)
  have run: "[first_row] @ second_row # [] = [first_row, second_row]"
    by simp
  have marks: "map is_analyzed (user_images ?w') = [True, True]"
    unfolding run relevant_phase by simp
  have scores: "map bristol_score (user_images ?w') = [JNull, JNum 4]"
    unfolding run relevant_phase by (simp add: first_row_def)
  from relevant_fetch_first relevant_fetch_second failed accepted marked marks scores frame
  show ?thesis
    by blast
qed

section \<open>Properties of the gallery reader\<close>

lemma row_before_total: "row_before r s \<or> row_before s r"
  by (auto simp: row_before_def split: option.splits)

lemma row_before_trans: "row_before r s \<Longrightarrow> row_before s t \<Longrightarrow> row_before r t"
  by (auto simp: row_before_def split: option.splits)

lemma set_place_row: "set (place_row r rs) = insert r (set rs)"
  by (induction rs) auto

lemma mset_place_row: "mset (place_row r rs) = add_mset r (mset rs)"
  by (induction rs) auto

lemma mset_order_rows: "mset (order_rows rs) = mset rs"
  by (induction rs) (simp_all add: mset_place_row)

lemma sorted_place_row:
  "sorted_wrt row_before rs \<Longrightarrow> sorted_wrt row_before (place_row r rs)"
proof (induction rs)
  case Nil
  then show ?case by simp
next
  case (Cons s ss)
  show ?case
  proof (cases "row_before r s")
    case True
    with Cons.prems show ?thesis
      by (auto intro: row_before_trans)
  next
    case False
    then have "row_before s r"
      using row_before_total by blast
    with False Cons show ?thesis
      by (auto simp: set_place_row)
  qed
qed

lemma sorted_order_rows: "sorted_wrt row_before (order_rows rs)"
  by (induction rs) (simp_all add: sorted_place_row)

text \<open>
  \<^bold>\<open>C9.\<close> For an authenticated user whose query the table answers, \<open>fetchImages\<close> leaves
  in \<open>images\<close> exactly the rows of that user (each as often as the table holds it), in an
  order where \<open>display_order\<close> ascends, rows without one come last, and rows with equal or
  absent \<open>display_order\<close> descend by \<open>created_at\<close>; the count shown for the quota is the
  length of that list, the number of the user's rows.
\<close>

theorem fetchImages_own_rows_in_gallery_order:
  fixes be :: backend and u :: user and w :: world and st :: images_state
  defines "st' \<equiv> fetchImages be (Some u) w st"
  assumes answered: "select_error be (uid u) = None"
  shows "(\<forall>r \<in> set (images st'). user_id r = uid u)
       \<and> mset (images st') = filter_mset (\<lambda>r. user_id r = uid u) (mset (user_images w))
       \<and> sorted_wrt row_before (images st')
       \<and> (\<forall>i j. i < j \<and> j < length (images st') \<longrightarrow>
            (case (display_order (images st' ! i), display_order (images st' ! j)) of
               (Some a, Some b) \<Rightarrow>
                 a \<le> b \<and> (a = b \<longrightarrow> created_at (images st' ! j) \<le> created_at (images st' ! i))
             | (Some a, None) \<Rightarrow> True
             | (None, Some b) \<Rightarrow> False
             | (None, None) \<Rightarrow> created_at (images st' ! j) \<le> created_at (images st' ! i)))
       \<and> currentImageCount st' = int (length (images st'))
       \<and> length (images st') = length (filter (\<lambda>r. user_id r = uid u) (user_images w))"
proof -
  let ?own = "filter (\<lambda>r. user_id r = uid u) (user_images w)"
  have imgs: "images st' = order_rows ?own"
    using answered by (simp add: st'_def fetchImages_def select_user_images_def)
  have ms: "mset (images st') = filter_mset (\<lambda>r. user_id r = uid u) (mset (user_images w))"
    by (simp add: imgs mset_order_rows)
  then have "set_mset (mset (images st')) \<subseteq> {r. user_id r = uid u}"
    by auto
  then have own: "\<forall>r \<in> set (images st'). user_id r = uid u"
    by auto
  have sorted: "sorted_wrt row_before (images st')"
    by (simp add: imgs sorted_order_rows)
  have pairs: "\<forall>i j. i < j \<and> j < length (images st') \<longrightarrow>
            (case (display_order (images st' ! i), display_order (images st' ! j)) of
               (Some a, Some b) \<Rightarrow>
                 a \<le> b \<and> (a = b \<longrightarrow> created_at (images st' ! j) \<le> created_at (images st' ! i))
             | (Some a, None) \<Rightarrow> True
             | (None, Some b) \<Rightarrow> False
             | (None, None) \<Rightarrow> created_at (images st' ! j) \<le> created_at (images st' ! i))"
  proof (intro allI impI)
    fix i j
    assume "i < j \<and> j < length (images st')"
    then have "row_before (images st' ! i) (images st' ! j)"
      using sorted by (simp add: sorted_wrt_iff_nth_less)
    then show "case (display_order (images st' ! i), display_order (images st' ! j)) of
               (Some a, Some b) \<Rightarrow>
                 a \<le> b \<and> (a = b \<longrightarrow> created_at (images st' ! j) \<le> created_at (images st' ! i))
             | (Some a, None) \<Rightarrow> True
             | (None, Some b) \<Rightarrow> False
             | (None, None) \<Rightarrow> created_at (images st' ! j) \<le> created_at (images st' ! i)"
      by (auto simp: row_before_def split: option.splits)
  qed
  have len: "length (images st') = length ?own"
    using ms by (metis mset_filter size_mset)
  show ?thesis
    using own ms sorted pairs len by (simp add: currentImageCount_def)
qed

lemma gallery_listing:
  "images (fetchImages demo_backend (Some demo_user) gallery_world idle_gallery)
     = [gallery_row 6 ''u1'' (Some 1) 5, gallery_row 4 ''u1'' (Some 2) 40,
        gallery_row 2 ''u1'' (Some 2) 20, gallery_row 5 ''u1'' None 50,
        gallery_row 1 ''u1'' None 10]"
  by (simp add: fetchImages_def demo_backend_def demo_user_def gallery_world_def
      empty_world_def select_user_images_def gallery_row_def row_before_def idle_gallery_def)

theorem fetchImages_own_rows_in_gallery_order_witness:
  "select_error demo_backend (uid demo_user) = None
   \<and> images (fetchImages demo_backend (Some demo_user) gallery_world idle_gallery)
     = [gallery_row 6 ''u1'' (Some 1) 5, gallery_row 4 ''u1'' (Some 2) 40,
        gallery_row 2 ''u1'' (Some 2) 20, gallery_row 5 ''u1'' None 50,
        gallery_row 1 ''u1'' None 10]
   \<and> currentImageCount (fetchImages demo_backend (Some demo_user) gallery_world idle_gallery)
     = 5"
proof -
  have answered: "select_error demo_backend (uid demo_user) = None"
    by (simp add: demo_backend_def)
  from fetchImages_own_rows_in_gallery_order [OF answered, of gallery_world idle_gallery]
  have "currentImageCount (fetchImages demo_backend (Some demo_user) gallery_world idle_gallery)
          = int (length (images (fetchImages demo_backend (Some demo_user) gallery_world
                                   idle_gallery)))"
    by blast
  then have "currentImageCount (fetchImages demo_backend (Some demo_user) gallery_world
               idle_gallery) = 5"
    unfolding gallery_listing by simp
  with answered gallery_listing show ?thesis
    by blast
qed

end
